theory Spec2Isabelle
  imports Complex_Main
begin

section \<open>JavaScript values used by the bot\<close>

text \<open>
  The bot (\<^verbatim>\<open>src/telegram/bot.js\<close>, started from \<^verbatim>\<open>src/main.js\<close>) is modelled by explicit state
  passing. A JavaScript string is the list of the bytes of its UTF-8 encoding, so the
  Chinese literals of the source are byte lists; every character the code inspects
  (the reserved MarkdownV2 characters, \<^verbatim>\<open>\w\<close>, \<^verbatim>\<open>\d\<close>, separators) is ASCII, one byte.
  A JavaScript number is a \<open>jsnum\<close>; \<^verbatim>\<open>parseFloat\<close> and the conversion of a number to a
  string are primitives of the runtime and are taken from the environment.
\<close>

datatype jsnum = NaN | NegInf | Num real | PosInf

definition isNaN :: "jsnum \<Rightarrow> bool" where
  "isNaN n = (n = NaN)"

definition le_zero :: "jsnum \<Rightarrow> bool" where
  \<comment> \<open>the comparison \<^verbatim>\<open>n <= 0\<close>, false on NaN\<close>
  "le_zero n = (case n of NaN \<Rightarrow> False | NegInf \<Rightarrow> True | Num r \<Rightarrow> r \<le> 0 | PosInf \<Rightarrow> False)"

definition num_or_zero :: "jsnum \<Rightarrow> jsnum" where
  \<comment> \<open>\<^verbatim>\<open>n || 0\<close>: NaN and zero are falsy\<close>
  "num_or_zero n = (if n = NaN \<or> n = Num 0 then Num 0 else n)"

definition str_or :: "string \<Rightarrow> string \<Rightarrow> string" where
  \<comment> \<open>\<^verbatim>\<open>s || d\<close> on a string: the empty string is falsy\<close>
  "str_or s d = (if s = [] then d else s)"

definition opt_str_or :: "string option \<Rightarrow> string \<Rightarrow> string" where
  \<comment> \<open>\<^verbatim>\<open>s || d\<close> on a value that may be undefined\<close>
  "opt_str_or s d = (case s of None \<Rightarrow> d | Some x \<Rightarrow> str_or x d)"

definition show_undefined :: "string option \<Rightarrow> string" where
  \<comment> \<open>a possibly undefined value inside a template literal\<close>
  "show_undefined s = (case s of None \<Rightarrow> ''undefined'' | Some x \<Rightarrow> x)"

definition show_null :: "string option \<Rightarrow> string" where
  \<comment> \<open>a NULL column read back and put inside a template literal\<close>
  "show_null s = (case s of None \<Rightarrow> ''null'' | Some x \<Rightarrow> x)"

datatype 'a result = Threw string | Returned 'a

definition truthy :: "string option \<Rightarrow> string option" where
  \<comment> \<open>a condition such as \<^verbatim>\<open>quote.quoteId\<close> or \<^verbatim>\<open>res && res.orderId\<close>: the id when there is
      one and it is truthy, that is, not the empty string\<close>
  "truthy r = (case r of None \<Rightarrow> None | Some x \<Rightarrow> if x = [] then None else Some x)"

subsection \<open>Strings\<close>

definition reserved :: "char list" where
  \<comment> \<open>the character class of \<^verbatim>\<open>escapeMarkdownV2\<close>; 0x60 is the backquote, 0x5C the backslash\<close>
  "reserved = ''_*[]()~'' @ [CHR 0x60] @ ''>#+-=|{}.!'' @ [CHR 0x5C]"

definition escapeMarkdownV2 :: "string \<Rightarrow> string" where
  "escapeMarkdownV2 s = concat (map (\<lambda>c. if c \<in> set reserved then [CHR 0x5C, c] else [c]) s)"

definition is_digit :: "char \<Rightarrow> bool" where
  "is_digit c = (c \<in> set ''0123456789'')"

definition is_word :: "char \<Rightarrow> bool" where
  \<comment> \<open>the class \<^verbatim>\<open>\w\<close>\<close>
  "is_word c = (c \<in> set ''abcdefghijklmnopqrstuvwxyzABCDEFGHIJKLMNOPQRSTUVWXYZ0123456789_'')"

definition is_space :: "char \<Rightarrow> bool" where
  \<comment> \<open>the ASCII white space that \<^verbatim>\<open>trim\<close> removes (tab, LF, VT, FF, CR, space); the
      white space outside ASCII is not modelled\<close>
  "is_space c = (c \<in> set [CHR 0x09, CHR 0x0A, CHR 0x0B, CHR 0x0C, CHR 0x0D, CHR 0x20])"

definition trim :: "string \<Rightarrow> string" where
  "trim s = rev (dropWhile is_space (rev (dropWhile is_space s)))"

definition upper_char :: "char \<Rightarrow> char" where
  "upper_char c =
     (case map_of (zip ''abcdefghijklmnopqrstuvwxyz'' ''ABCDEFGHIJKLMNOPQRSTUVWXYZ'') c of
        None \<Rightarrow> c | Some u \<Rightarrow> u)"

definition toUpperCase :: "string \<Rightarrow> string" where
  \<comment> \<open>upper case of the ASCII letters; bytes outside ASCII are left as they are\<close>
  "toUpperCase s = map upper_char s"

fun split_on :: "char \<Rightarrow> string \<Rightarrow> string list" where
  "split_on d [] = [[]]"
| "split_on d (c # cs) =
     (if c = d then [] # split_on d cs
      else (case split_on d cs of [] \<Rightarrow> [[c]] | w # ws \<Rightarrow> (c # w) # ws))"

fun join :: "string \<Rightarrow> string list \<Rightarrow> string" where
  "join sep [] = []"
| "join sep [x] = x"
| "join sep (x # y # ys) = x @ sep @ join sep (y # ys)"

fun strip_prefix :: "string \<Rightarrow> string \<Rightarrow> string option" where
  "strip_prefix [] s = Some s"
| "strip_prefix (p # ps) [] = None"
| "strip_prefix (p # ps) (c # cs) = (if p = c then strip_prefix ps cs else None)"

definition startsWith :: "string \<Rightarrow> string \<Rightarrow> bool" where
  "startsWith s p = (strip_prefix p s \<noteq> None)"

definition nth_opt :: "'a list \<Rightarrow> nat \<Rightarrow> 'a option" where
  \<comment> \<open>\<^verbatim>\<open>xs[i]\<close>, undefined out of range\<close>
  "nth_opt xs i = (if i < length xs then Some (xs ! i) else None)"

fun nat_digits :: "nat \<Rightarrow> string" where
  "nat_digits n =
     (if n < 10 then [''0123456789'' ! n]
      else nat_digits (n div 10) @ [''0123456789'' ! (n mod 10)])"

declare nat_digits.simps [simp del]

definition int_toString :: "int \<Rightarrow> string" where
  \<comment> \<open>\<^verbatim>\<open>toString\<close> of an integer\<close>
  "int_toString i = (if i < 0 then ''-'' @ nat_digits (nat (- i)) else nat_digits (nat i))"

subsection \<open>The command patterns\<close>

text \<open>
  \<^verbatim>\<open>bot.onText(re, callback)\<close> calls back with \<^verbatim>\<open>re.exec(msg.text)\<close> when it is not null.
  No pattern is anchored at the start, so the match is searched from every position,
  left to right. At one position every pattern of the bot is deterministic: a greedy
  \<^verbatim>\<open>\w+\<close>, \<^verbatim>\<open>\d+\<close> or \<^verbatim>\<open>.+\<close> is followed by a character outside its class (a space, a dot,
  the end) or by nothing, so a shorter run can never succeed where the longest fails,
  and the optional fraction \<^verbatim>\<open>(\.\d+)?\<close> is taken whenever a dot and a digit follow.
\<close>

fun first_match :: "(string \<Rightarrow> 'a option) \<Rightarrow> string \<Rightarrow> 'a option" where
  "first_match m [] = m []"
| "first_match m (c # cs) = (case m (c # cs) of Some r \<Rightarrow> Some r | None \<Rightarrow> first_match m cs)"

definition word_run :: "string \<Rightarrow> (string \<times> string) option" where
  \<comment> \<open>\<^verbatim>\<open>(\w+)\<close>: the longest run of word characters and what follows it\<close>
  "word_run s =
     (if takeWhile is_word s = [] then None else Some (takeWhile is_word s, dropWhile is_word s))"

definition decimal_run :: "string \<Rightarrow> (string \<times> string) option" where
  \<comment> \<open>\<^verbatim>\<open>(\d+(\.\d+)?)\<close>\<close>
  "decimal_run s =
     (let ds = takeWhile is_digit s; r = dropWhile is_digit s in
      if ds = [] then None
      else (case r of
              [] \<Rightarrow> Some (ds, r)
            | c # r' \<Rightarrow>
                if c = CHR ''.'' \<and> takeWhile is_digit r' \<noteq> []
                then Some (ds @ ''.'' @ takeWhile is_digit r', dropWhile is_digit r')
                else Some (ds, r)))"

fun dot_run :: "string \<Rightarrow> string" where
  \<comment> \<open>the longest run of \<^verbatim>\<open>.\<close>: up to a line terminator (LF, CR, U+2028, U+2029)\<close>
  "dot_run [] = []"
| "dot_run (c # cs) =
     (if c = CHR 0x0A \<or> c = CHR 0x0D then []
      else if c = CHR 0xE2 \<and> (take 2 cs = [CHR 0x80, CHR 0xA8] \<or> take 2 cs = [CHR 0x80, CHR 0xA9])
      then []
      else c # dot_run cs)"

definition match_literal :: "string \<Rightarrow> string \<Rightarrow> unit option" where
  \<comment> \<open>\<^verbatim>\<open>/lit/\<close>, as \<^verbatim>\<open>/\/start/\<close>\<close>
  "match_literal l s = first_match (\<lambda>u. map_option (\<lambda>_. ()) (strip_prefix l u)) s"

definition match_literal_end :: "string \<Rightarrow> string \<Rightarrow> unit option" where
  \<comment> \<open>\<^verbatim>\<open>/lit$/\<close>, as \<^verbatim>\<open>/\/exchangeinfo$/\<close>\<close>
  "match_literal_end l s = first_match (\<lambda>u. if u = l then Some () else None) s"

definition match_word_arg :: "string \<Rightarrow> string \<Rightarrow> string option" where
  \<comment> \<open>\<^verbatim>\<open>/lit (\w+)/\<close>, as \<^verbatim>\<open>/\/status (\w+)/\<close>; \<open>l\<close> ends with the space\<close>
  "match_word_arg l s =
     first_match (\<lambda>u. case strip_prefix l u of None \<Rightarrow> None
                        | Some r \<Rightarrow> map_option fst (word_run r)) s"

definition match_rest_arg :: "string \<Rightarrow> string \<Rightarrow> string option" where
  \<comment> \<open>\<^verbatim>\<open>/lit (.+)/\<close>, as \<^verbatim>\<open>/\/addassets (.+)/\<close>\<close>
  "match_rest_arg l s =
     first_match (\<lambda>u. case strip_prefix l u of None \<Rightarrow> None
                        | Some r \<Rightarrow> if dot_run r = [] then None else Some (dot_run r)) s"

definition convert_at :: "string \<Rightarrow> (string \<times> string \<times> string) option" where
  "convert_at u =
     Option.bind (strip_prefix ''/convert '' u) (\<lambda>r1.
     Option.bind (word_run r1) (\<lambda>(a, r2).
     Option.bind (strip_prefix '' '' r2) (\<lambda>r3.
     Option.bind (word_run r3) (\<lambda>(b, r4).
     Option.bind (strip_prefix '' '' r4) (\<lambda>r5.
     Option.bind (decimal_run r5) (\<lambda>(d, r6). Some (a, b, d)))))))"

definition match_convert :: "string \<Rightarrow> (string \<times> string \<times> string) option" where
  \<comment> \<open>\<^verbatim>\<open>/\/convert (\w+) (\w+) (\d+(\.\d+)?)/\<close>: the groups 1, 2 and 3\<close>
  "match_convert s = first_match convert_at s"

definition placeorder_at :: "string \<Rightarrow> (string \<times> string \<times> string \<times> string) option" where
  "placeorder_at u =
     Option.bind (strip_prefix ''/placeorder '' u) (\<lambda>r1.
     Option.bind (word_run r1) (\<lambda>(a, r2).
     Option.bind (strip_prefix '' '' r2) (\<lambda>r3.
     Option.bind (word_run r3) (\<lambda>(b, r4).
     Option.bind (strip_prefix '' '' r4) (\<lambda>r5.
     Option.bind (decimal_run r5) (\<lambda>(d, r6).
     Option.bind (strip_prefix '' '' r6) (\<lambda>r7.
     Option.bind (decimal_run r7) (\<lambda>(p, r8).
     if r8 = [] then Some (a, b, d, p) else None))))))))"

definition match_placeorder :: "string \<Rightarrow> (string \<times> string \<times> string \<times> string) option" where
  \<comment> \<open>\<^verbatim>\<open>/\/placeorder (\w+) (\w+) (\d+(\.\d+)?) (\d+(\.\d+)?)$/\<close>: the groups 1, 2, 3 and 5\<close>
  "match_placeorder s = first_match placeorder_at s"

section \<open>The texts of the bot\<close>

text \<open>
  The string literals and the template literals of \<^verbatim>\<open>src/telegram/bot.js\<close> and of
  \<^verbatim>\<open>sendErrorNotification\<close> in \<^verbatim>\<open>src/main.js\<close>, byte for byte in UTF-8. The holes of a
  template literal are the parameters of its definition. The reserved characters that
  occur in these texts are the asterisks of the bold markers, the dots after a list
  number, the backquotes and the ASCII punctuation of the examples; the Chinese
  punctuation is outside ASCII and is not reserved.
\<close>

definition menuPrompt :: "string" where
  \<comment> \<open>sendPersistentMenu: the prompt "please choose an action:"\<close>
  "menuPrompt =
    [CHR 0xE8, CHR 0xAF, CHR 0xB7, CHR 0xE9, CHR 0x80, CHR 0x89, CHR 0xE6, CHR 0x8B, CHR 0xA9, CHR 0xE4,
     CHR 0xB8, CHR 0x80, CHR 0xE4, CHR 0xB8, CHR 0xAA, CHR 0xE6, CHR 0x93, CHR 0x8D, CHR 0xE4, CHR 0xBD,
     CHR 0x9C] @
    '':''"

definition labelConvert :: "string" where
  \<comment> \<open>menu label "convert now"\<close>
  "labelConvert =
    [CHR 0xE7, CHR 0xAB, CHR 0x8B, CHR 0xE5, CHR 0x8D, CHR 0xB3, CHR 0xE5, CHR 0x85, CHR 0x91, CHR 0xE6,
     CHR 0x8D, CHR 0xA2]"

definition labelStatus :: "string" where
  \<comment> \<open>menu label "view status"\<close>
  "labelStatus =
    [CHR 0xE6, CHR 0x9F, CHR 0xA5, CHR 0xE7, CHR 0x9C, CHR 0x8B, CHR 0xE7, CHR 0x8A, CHR 0xB6, CHR 0xE6,
     CHR 0x80, CHR 0x81]"

definition labelProfile :: "string" where
  \<comment> \<open>menu label "personal information"\<close>
  "labelProfile =
    [CHR 0xE4, CHR 0xB8, CHR 0xAA, CHR 0xE4, CHR 0xBA, CHR 0xBA, CHR 0xE4, CHR 0xBF, CHR 0xA1, CHR 0xE6,
     CHR 0x81, CHR 0xAF]"

definition labelHelp :: "string" where
  \<comment> \<open>menu label "help"\<close>
  "labelHelp =
    [CHR 0xE5, CHR 0xB8, CHR 0xAE, CHR 0xE5, CHR 0x8A, CHR 0xA9]"

definition welcomeMessage :: "string" where
  \<comment> \<open>/start: the welcome text\<close>
  "welcomeMessage =
    [CHR 0xE6, CHR 0xAC, CHR 0xA2, CHR 0xE8, CHR 0xBF, CHR 0x8E, CHR 0xE4, CHR 0xBD, CHR 0xBF, CHR 0xE7,
     CHR 0x94, CHR 0xA8] @
    '' **Binance'' @
    [CHR 0xE6, CHR 0x99, CHR 0xBA, CHR 0xE8, CHR 0x83, CHR 0xBD, CHR 0xE5, CHR 0x8A, CHR 0xA9, CHR 0xE6,
     CHR 0x89, CHR 0x8B] @
    ''**'' @
    [CHR 0xEF, CHR 0xBC, CHR 0x81, CHR 0xE8, CHR 0xBF, CHR 0x99, CHR 0xE6, CHR 0x98, CHR 0xAF, CHR 0xE6,
     CHR 0x82, CHR 0xA8, CHR 0xE7, CHR 0x9A, CHR 0x84, CHR 0xE4, CHR 0xB8, CHR 0x93, CHR 0xE5, CHR 0xB1,
     CHR 0x9E, CHR 0xE5, CHR 0x8A, CHR 0xA0, CHR 0xE5, CHR 0xAF, CHR 0x86, CHR 0xE8, CHR 0xB4, CHR 0xA7,
     CHR 0xE5, CHR 0xB8, CHR 0x81, CHR 0xE4, CHR 0xBA, CHR 0xA4, CHR 0xE6, CHR 0x98, CHR 0x93, CHR 0xE4,
     CHR 0xBC, CHR 0x99, CHR 0xE4, CHR 0xBC, CHR 0xB4, CHR 0xEF, CHR 0xBC, CHR 0x8C, CHR 0xE6, CHR 0x82,
     CHR 0xA8, CHR 0xE5, CHR 0x8F, CHR 0xAF, CHR 0xE4, CHR 0xBB, CHR 0xA5, CHR 0xE9, CHR 0x80, CHR 0x9A,
     CHR 0xE8, CHR 0xBF, CHR 0x87, CHR 0xE4, CHR 0xBB, CHR 0xA5, CHR 0xE4, CHR 0xB8, CHR 0x8B, CHR 0xE9,
     CHR 0x80, CHR 0x89, CHR 0xE9, CHR 0xA1, CHR 0xB9, CHR 0xE8, CHR 0xBF, CHR 0x9B, CHR 0xE8, CHR 0xA1,
     CHR 0x8C, CHR 0xE6, CHR 0x93, CHR 0x8D, CHR 0xE4, CHR 0xBD, CHR 0x9C, CHR 0xE3, CHR 0x80, CHR 0x82,
     CHR 0xE8, CHR 0xAF, CHR 0xB7, CHR 0xE9, CHR 0x80, CHR 0x89, CHR 0xE6, CHR 0x8B, CHR 0xA9, CHR 0xE4,
     CHR 0xB8, CHR 0x80, CHR 0xE4, CHR 0xB8, CHR 0xAA, CHR 0xE6, CHR 0x93, CHR 0x8D, CHR 0xE4, CHR 0xBD,
     CHR 0x9C, CHR 0xE3, CHR 0x80, CHR 0x82]"

definition convertHint :: "string" where
  \<comment> \<open>the reply "enter a convert command, e.g. /convert ETH BTC 0.5"\<close>
  "convertHint =
    [CHR 0xE8, CHR 0xAF, CHR 0xB7, CHR 0xE8, CHR 0xBE, CHR 0x93, CHR 0xE5, CHR 0x85, CHR 0xA5, CHR 0xE5,
     CHR 0x85, CHR 0x91, CHR 0xE6, CHR 0x8D, CHR 0xA2, CHR 0xE5, CHR 0x91, CHR 0xBD, CHR 0xE4, CHR 0xBB,
     CHR 0xA4, CHR 0xEF, CHR 0xBC, CHR 0x8C, CHR 0xE4, CHR 0xBE, CHR 0x8B, CHR 0xE5, CHR 0xA6, CHR 0x82,
     CHR 0xEF, CHR 0xBC, CHR 0x9A] @
    ''/convert ETH BTC 0.5''"

definition statusHint :: "string" where
  \<comment> \<open>the reply "enter an order id, e.g. /status 12345"\<close>
  "statusHint =
    [CHR 0xE8, CHR 0xAF, CHR 0xB7, CHR 0xE8, CHR 0xBE, CHR 0x93, CHR 0xE5, CHR 0x85, CHR 0xA5, CHR 0xE8,
     CHR 0xAE, CHR 0xA2, CHR 0xE5, CHR 0x8D, CHR 0x95] @
    '' ID'' @
    [CHR 0xEF, CHR 0xBC, CHR 0x8C, CHR 0xE4, CHR 0xBE, CHR 0x8B, CHR 0xE5, CHR 0xA6, CHR 0x82, CHR 0xEF,
     CHR 0xBC, CHR 0x9A] @
    ''/status 12345''"

definition profileHint :: "string" where
  \<comment> \<open>the reply "personal information is not implemented yet"\<close>
  "profileHint =
    [CHR 0xE4, CHR 0xB8, CHR 0xAA, CHR 0xE4, CHR 0xBA, CHR 0xBA, CHR 0xE4, CHR 0xBF, CHR 0xA1, CHR 0xE6,
     CHR 0x81, CHR 0xAF, CHR 0xE5, CHR 0x8A, CHR 0x9F, CHR 0xE8, CHR 0x83, CHR 0xBD, CHR 0xE5, CHR 0xB0,
     CHR 0x9A, CHR 0xE6, CHR 0x9C, CHR 0xAA, CHR 0xE5, CHR 0xAE, CHR 0x9E, CHR 0xE7, CHR 0x8E, CHR 0xB0,
     CHR 0xE3, CHR 0x80, CHR 0x82]"

definition rateLimitFallback :: "string" where
  \<comment> \<open>/convert: fallback rate-limit text\<close>
  "rateLimitFallback =
    [CHR 0xE2, CHR 0x9A, CHR 0xA0, CHR 0xEF, CHR 0xB8, CHR 0x8F] @
    '' *'' @
    [CHR 0xE9, CHR 0x80, CHR 0x9F, CHR 0xE7, CHR 0x8E, CHR 0x87, CHR 0xE9, CHR 0x99, CHR 0x90, CHR 0xE5,
     CHR 0x88, CHR 0xB6, CHR 0xE8, CHR 0xB6, CHR 0x85, CHR 0xE5, CHR 0x87, CHR 0xBA] @
    '':*'' @
    [CHR 0x0A, CHR 0xE8, CHR 0xAF, CHR 0xB7, CHR 0xE7, CHR 0xA8, CHR 0x8D, CHR 0xE5, CHR 0x90, CHR 0x8E,
     CHR 0xE5, CHR 0x86, CHR 0x8D, CHR 0xE8, CHR 0xAF, CHR 0x95, CHR 0xE3, CHR 0x80, CHR 0x82]"

definition notSupportedMessage :: "string \<Rightarrow> string \<Rightarrow> string" where
  \<comment> \<open>"pair not supported" with both symbols\<close>
  "notSupportedMessage fromA toA =
    [CHR 0xE2, CHR 0x9A, CHR 0xA0, CHR 0xEF, CHR 0xB8, CHR 0x8F] @
    '' *'' @
    [CHR 0xE8, CHR 0xB4, CHR 0xA7, CHR 0xE5, CHR 0xB8, CHR 0x81, CHR 0xE5, CHR 0xAF, CHR 0xB9, CHR 0xE4,
     CHR 0xB8, CHR 0x8D, CHR 0xE6, CHR 0x94, CHR 0xAF, CHR 0xE6, CHR 0x8C, CHR 0x81] @
    '':*'' @
    [CHR 0x0A] @
    fromA @ '' '' @
    [CHR 0xE2, CHR 0x86, CHR 0x94, CHR 0xEF, CHR 0xB8, CHR 0x8F] @
    '' '' @ toA @
    [CHR 0xE3, CHR 0x80, CHR 0x82]"

definition confirmButton :: "string" where
  \<comment> \<open>inline button "confirm conversion"\<close>
  "confirmButton =
    [CHR 0xE7, CHR 0xA1, CHR 0xAE, CHR 0xE8, CHR 0xAE, CHR 0xA4, CHR 0xE5, CHR 0x85, CHR 0x91, CHR 0xE6,
     CHR 0x8D, CHR 0xA2]"

definition cancelButton :: "string" where
  \<comment> \<open>inline button "cancel"\<close>
  "cancelButton =
    [CHR 0xE5, CHR 0x8F, CHR 0x96, CHR 0xE6, CHR 0xB6, CHR 0x88]"

definition confirmCallbackData :: "string \<Rightarrow> string \<Rightarrow> string \<Rightarrow> string" where
  \<comment> \<open>callback data of the confirm button\<close>
  "confirmCallbackData fromA toA amt =
    ''confirm_convert_'' @ fromA @ ''_'' @ toA @ ''_'' @ amt"

definition confirmMessage :: "string \<Rightarrow> string \<Rightarrow> string \<Rightarrow> string" where
  \<comment> \<open>/convert: the confirmation question\<close>
  "confirmMessage amt fromA toA =
    [CHR 0xE6, CHR 0x82, CHR 0xA8, CHR 0xE7, CHR 0xA1, CHR 0xAE, CHR 0xE8, CHR 0xAE, CHR 0xA4, CHR 0xE8,
     CHR 0xA6, CHR 0x81, CHR 0xE5, CHR 0x85, CHR 0x91, CHR 0xE6, CHR 0x8D, CHR 0xA2] @
    '' *'' @ amt @ ''* '' @ fromA @ '' '' @
    [CHR 0xE4, CHR 0xB8, CHR 0xBA] @
    '' *'' @ toA @ ''* '' @
    [CHR 0xE5, CHR 0x90, CHR 0x97, CHR 0xEF, CHR 0xBC, CHR 0x9F]"

definition convertCancelled :: "string" where
  \<comment> \<open>callback: "conversion cancelled"\<close>
  "convertCancelled =
    [CHR 0xE5, CHR 0x85, CHR 0x91, CHR 0xE6, CHR 0x8D, CHR 0xA2, CHR 0xE5, CHR 0xB7, CHR 0xB2, CHR 0xE5,
     CHR 0x8F, CHR 0x96, CHR 0xE6, CHR 0xB6, CHR 0x88, CHR 0xE3, CHR 0x80, CHR 0x82]"

definition unknownAction :: "string" where
  \<comment> \<open>callback: "unknown action"\<close>
  "unknownAction =
    [CHR 0xE6, CHR 0x9C, CHR 0xAA, CHR 0xE7, CHR 0x9F, CHR 0xA5, CHR 0xE6, CHR 0x93, CHR 0x8D, CHR 0xE4,
     CHR 0xBD, CHR 0x9C, CHR 0xE3, CHR 0x80, CHR 0x82]"

definition statusNotFoundMessage :: "string \<Rightarrow> string" where
  \<comment> \<open>/status: "order not found"\<close>
  "statusNotFoundMessage oid =
    [CHR 0xE2, CHR 0x9A, CHR 0xA0, CHR 0xEF, CHR 0xB8, CHR 0x8F] @
    '' *'' @
    [CHR 0xE8, CHR 0xAE, CHR 0xA2, CHR 0xE5, CHR 0x8D, CHR 0x95, CHR 0xE6, CHR 0x9C, CHR 0xAA, CHR 0xE6,
     CHR 0x89, CHR 0xBE, CHR 0xE5, CHR 0x88, CHR 0xB0] @
    '':*'' @
    [CHR 0x0A, CHR 0xE6, CHR 0x9C, CHR 0xAA, CHR 0xE6, CHR 0x89, CHR 0xBE, CHR 0xE5, CHR 0x88, CHR 0xB0,
     CHR 0xE8, CHR 0xAE, CHR 0xA2, CHR 0xE5, CHR 0x8D, CHR 0x95] @
    '' ID '' @ oid @
    [CHR 0xE3, CHR 0x80, CHR 0x82]"

definition statusMessageHead :: "string \<Rightarrow> string \<Rightarrow> string" where
  \<comment> \<open>/status: order id and status lines\<close>
  "statusMessageHead oid st =
    ''*'' @
    [CHR 0xE8, CHR 0xAE, CHR 0xA2, CHR 0xE5, CHR 0x8D, CHR 0x95] @
    '' ID:* '' @ oid @
    [CHR 0x0A] @
    ''*'' @
    [CHR 0xE7, CHR 0x8A, CHR 0xB6, CHR 0xE6, CHR 0x80, CHR 0x81] @
    '':* '' @ st"

definition statusErrorLine :: "string \<Rightarrow> string" where
  \<comment> \<open>/status: the error line appended for a failed order\<close>
  "statusErrorLine err =
    [CHR 0x0A] @
    ''*'' @
    [CHR 0xE9, CHR 0x94, CHR 0x99, CHR 0xE8, CHR 0xAF, CHR 0xAF] @
    '':* '' @ err"

definition failedMessage :: "string \<Rightarrow> string" where
  \<comment> \<open>the "conversion failed" reply of every catch block\<close>
  "failedMessage err =
    [CHR 0xE2, CHR 0x9D, CHR 0x8C] @
    '' *'' @
    [CHR 0xE8, CHR 0xBD, CHR 0xAC, CHR 0xE6, CHR 0x8D, CHR 0xA2, CHR 0xE5, CHR 0xA4, CHR 0xB1, CHR 0xE8,
     CHR 0xB4, CHR 0xA5] @
    '':*'' @
    [CHR 0x0A] @
    err"

definition errorReport :: "string \<Rightarrow> string" where
  \<comment> \<open>sendErrorNotification: the "error report" text\<close>
  "errorReport m =
    [CHR 0xE2, CHR 0x9A, CHR 0xA0, CHR 0xEF, CHR 0xB8, CHR 0x8F] @
    '' *'' @
    [CHR 0xE9, CHR 0x94, CHR 0x99, CHR 0xE8, CHR 0xAF, CHR 0xAF, CHR 0xE6, CHR 0x8A, CHR 0xA5, CHR 0xE5,
     CHR 0x91, CHR 0x8A] @
    '':*'' @
    [CHR 0x0A] @
    m"

definition statusQueryFailed :: "string \<Rightarrow> string" where
  \<comment> \<open>admin note: status query failed\<close>
  "statusQueryFailed m =
    [CHR 0xE6, CHR 0x9F, CHR 0xA5, CHR 0xE8, CHR 0xAF, CHR 0xA2, CHR 0xE8, CHR 0xAE, CHR 0xA2, CHR 0xE5,
     CHR 0x8D, CHR 0x95, CHR 0xE7, CHR 0x8A, CHR 0xB6, CHR 0xE6, CHR 0x80, CHR 0x81, CHR 0xE5, CHR 0xA4,
     CHR 0xB1, CHR 0xE8, CHR 0xB4, CHR 0xA5] @
    '': '' @ m"

definition historyQueryFailed :: "string \<Rightarrow> string" where
  \<comment> \<open>admin note: history query failed\<close>
  "historyQueryFailed m =
    [CHR 0xE6, CHR 0x9F, CHR 0xA5, CHR 0xE8, CHR 0xAF, CHR 0xA2, CHR 0xE9, CHR 0x97, CHR 0xAA, CHR 0xE5,
     CHR 0x85, CHR 0x91, CHR 0xE4, CHR 0xBA, CHR 0xA4, CHR 0xE6, CHR 0x98, CHR 0x93, CHR 0xE5, CHR 0x8E,
     CHR 0x86, CHR 0xE5, CHR 0x8F, CHR 0xB2, CHR 0xE5, CHR 0xA4, CHR 0xB1, CHR 0xE8, CHR 0xB4, CHR 0xA5] @
    '': '' @ m"

definition limitOrderFailed :: "string \<Rightarrow> string" where
  \<comment> \<open>admin note: limit order creation failed\<close>
  "limitOrderFailed m =
    [CHR 0xE9, CHR 0x99, CHR 0x90, CHR 0xE4, CHR 0xBB, CHR 0xB7, CHR 0xE5, CHR 0x8D, CHR 0x95, CHR 0xE5,
     CHR 0x88, CHR 0x9B, CHR 0xE5, CHR 0xBB, CHR 0xBA, CHR 0xE5, CHR 0xA4, CHR 0xB1, CHR 0xE8, CHR 0xB4,
     CHR 0xA5] @
    '': '' @ m"

definition limitCancelFailed :: "string \<Rightarrow> string" where
  \<comment> \<open>admin note: limit order cancel failed\<close>
  "limitCancelFailed m =
    [CHR 0xE9, CHR 0x99, CHR 0x90, CHR 0xE4, CHR 0xBB, CHR 0xB7, CHR 0xE5, CHR 0x8D, CHR 0x95, CHR 0xE5,
     CHR 0x8F, CHR 0x96, CHR 0xE6, CHR 0xB6, CHR 0x88, CHR 0xE5, CHR 0xA4, CHR 0xB1, CHR 0xE8, CHR 0xB4,
     CHR 0xA5] @
    '': '' @ m"

definition exchangeInfoFailed :: "string \<Rightarrow> string" where
  \<comment> \<open>admin note: exchange info failed\<close>
  "exchangeInfoFailed m =
    [CHR 0xE8, CHR 0x8E, CHR 0xB7, CHR 0xE5, CHR 0x8F, CHR 0x96, CHR 0xE4, CHR 0xBA, CHR 0xA4, CHR 0xE6,
     CHR 0x98, CHR 0x93, CHR 0xE5, CHR 0xAF, CHR 0xB9, CHR 0xE4, CHR 0xBF, CHR 0xA1, CHR 0xE6, CHR 0x81,
     CHR 0xAF, CHR 0xE5, CHR 0xA4, CHR 0xB1, CHR 0xE8, CHR 0xB4, CHR 0xA5] @
    '': '' @ m"

definition addAssetsFailed :: "string \<Rightarrow> string" where
  \<comment> \<open>admin note: adding pairs failed\<close>
  "addAssetsFailed m =
    [CHR 0xE6, CHR 0x89, CHR 0xB9, CHR 0xE9, CHR 0x87, CHR 0x8F, CHR 0xE6, CHR 0xB7, CHR 0xBB, CHR 0xE5,
     CHR 0x8A, CHR 0xA0, CHR 0xE8, CHR 0xB5, CHR 0x84, CHR 0xE4, CHR 0xBA, CHR 0xA7, CHR 0xE5, CHR 0x85,
     CHR 0x91, CHR 0xE6, CHR 0x8D, CHR 0xA2, CHR 0xE5, CHR 0xAF, CHR 0xB9, CHR 0xE5, CHR 0xA4, CHR 0xB1,
     CHR 0xE8, CHR 0xB4, CHR 0xA5] @
    '': '' @ m"

definition removeAssetsFailed :: "string \<Rightarrow> string" where
  \<comment> \<open>admin note: removing pairs failed\<close>
  "removeAssetsFailed m =
    [CHR 0xE6, CHR 0x89, CHR 0xB9, CHR 0xE9, CHR 0x87, CHR 0x8F, CHR 0xE7, CHR 0xA7, CHR 0xBB, CHR 0xE9,
     CHR 0x99, CHR 0xA4, CHR 0xE8, CHR 0xB5, CHR 0x84, CHR 0xE4, CHR 0xBA, CHR 0xA7, CHR 0xE5, CHR 0x85,
     CHR 0x91, CHR 0xE6, CHR 0x8D, CHR 0xA2, CHR 0xE5, CHR 0xAF, CHR 0xB9, CHR 0xE5, CHR 0xA4, CHR 0xB1,
     CHR 0xE8, CHR 0xB4, CHR 0xA5] @
    '': '' @ m"

definition convertFailed :: "string \<Rightarrow> string" where
  \<comment> \<open>admin note: instant conversion failed\<close>
  "convertFailed m =
    [CHR 0xE9, CHR 0x97, CHR 0xAA, CHR 0xE5, CHR 0x85, CHR 0x91, CHR 0xE5, CHR 0xA4, CHR 0xB1, CHR 0xE8,
     CHR 0xB4, CHR 0xA5] @
    '': '' @ m"

definition historyHeader :: "string" where
  \<comment> \<open>/tradehistory: header\<close>
  "historyHeader =
    [CHR 0xF0, CHR 0x9F, CHR 0x93, CHR 0x84] @
    '' *'' @
    [CHR 0xE6, CHR 0x9C, CHR 0x80, CHR 0xE8, CHR 0xBF, CHR 0x91, CHR 0xE7, CHR 0x9A, CHR 0x84, CHR 0xE9,
     CHR 0x97, CHR 0xAA, CHR 0xE5, CHR 0x85, CHR 0x91, CHR 0xE4, CHR 0xBA, CHR 0xA4, CHR 0xE6, CHR 0x98,
     CHR 0x93, CHR 0xE5, CHR 0x8E, CHR 0x86, CHR 0xE5, CHR 0x8F, CHR 0xB2] @
    '':*'' @
    [CHR 0x0A, CHR 0x0A]"

definition historyItem :: "string \<Rightarrow> string \<Rightarrow> string \<Rightarrow> string \<Rightarrow> string \<Rightarrow> string \<Rightarrow> string \<Rightarrow> string" where
  \<comment> \<open>/tradehistory: one numbered order\<close>
  "historyItem idx oid fromA toA amt st ts =
    idx @ ''. *'' @
    [CHR 0xE8, CHR 0xAE, CHR 0xA2, CHR 0xE5, CHR 0x8D, CHR 0x95] @
    '' ID:* '' @ oid @
    [CHR 0x0A] @
    ''   *'' @
    [CHR 0xE4, CHR 0xBB, CHR 0x8E] @
    '':* '' @ fromA @
    [CHR 0x0A] @
    ''   *'' @
    [CHR 0xE5, CHR 0x88, CHR 0xB0] @
    '':* '' @ toA @
    [CHR 0x0A] @
    ''   *'' @
    [CHR 0xE6, CHR 0x95, CHR 0xB0, CHR 0xE9, CHR 0x87, CHR 0x8F] @
    '':* '' @ amt @
    [CHR 0x0A] @
    ''   *'' @
    [CHR 0xE7, CHR 0x8A, CHR 0xB6, CHR 0xE6, CHR 0x80, CHR 0x81] @
    '':* '' @ st @
    [CHR 0x0A] @
    ''   *'' @
    [CHR 0xE6, CHR 0x97, CHR 0xB6, CHR 0xE9, CHR 0x97, CHR 0xB4] @
    '':* '' @ ts @
    [CHR 0x0A, CHR 0x0A]"

definition noHistoryMessage :: "string" where
  \<comment> \<open>/tradehistory: "no history"\<close>
  "noHistoryMessage =
    [CHR 0xE2, CHR 0x9C, CHR 0x85] @
    '' '' @
    [CHR 0xE5, CHR 0xBD, CHR 0x93, CHR 0xE5, CHR 0x89, CHR 0x8D, CHR 0xE6, CHR 0xB2, CHR 0xA1, CHR 0xE6,
     CHR 0x9C, CHR 0x89, CHR 0xE9, CHR 0x97, CHR 0xAA, CHR 0xE5, CHR 0x85, CHR 0x91, CHR 0xE4, CHR 0xBA,
     CHR 0xA4, CHR 0xE6, CHR 0x98, CHR 0x93, CHR 0xE5, CHR 0x8E, CHR 0x86, CHR 0xE5, CHR 0x8F, CHR 0xB2,
     CHR 0xE3, CHR 0x80, CHR 0x82]"

definition invalidNumbersMessage :: "string" where
  \<comment> \<open>/placeorder: "amount and price must be positive"\<close>
  "invalidNumbersMessage =
    [CHR 0xE2, CHR 0x9D, CHR 0x8C] @
    '' *'' @
    [CHR 0xE8, CHR 0xBD, CHR 0xAC, CHR 0xE6, CHR 0x8D, CHR 0xA2, CHR 0xE5, CHR 0xA4, CHR 0xB1, CHR 0xE8,
     CHR 0xB4, CHR 0xA5] @
    '':*'' @
    [CHR 0x0A, CHR 0xE9, CHR 0x87, CHR 0x91, CHR 0xE9, CHR 0xA2, CHR 0x9D, CHR 0xE5, CHR 0x92, CHR 0x8C,
     CHR 0xE4, CHR 0xBB, CHR 0xB7, CHR 0xE6, CHR 0xA0, CHR 0xBC, CHR 0xE5, CHR 0xBF, CHR 0x85, CHR 0xE9,
     CHR 0xA1, CHR 0xBB, CHR 0xE4, CHR 0xB8, CHR 0xBA, CHR 0xE6, CHR 0xAD, CHR 0xA3, CHR 0xE6, CHR 0x95,
     CHR 0xB0, CHR 0xE3, CHR 0x80, CHR 0x82]"

definition limitOrderPlaced :: "string \<Rightarrow> string \<Rightarrow> string \<Rightarrow> string \<Rightarrow> string \<Rightarrow> string" where
  \<comment> \<open>/placeorder: success text\<close>
  "limitOrderPlaced fromA toA amt price oid =
    [CHR 0xE2, CHR 0x9C, CHR 0x85] @
    '' *'' @
    [CHR 0xE9, CHR 0x99, CHR 0x90, CHR 0xE4, CHR 0xBB, CHR 0xB7, CHR 0xE5, CHR 0x8D, CHR 0x95, CHR 0xE5,
     CHR 0xB7, CHR 0xB2, CHR 0xE4, CHR 0xB8, CHR 0x8B, CHR 0xE8, CHR 0xBE, CHR 0xBE, CHR 0xEF, CHR 0xBC,
     CHR 0x81] @
    ''*'' @
    [CHR 0x0A, CHR 0x0A] @
    ''*'' @
    [CHR 0xE4, CHR 0xBB, CHR 0x8E] @
    '':* '' @ fromA @
    [CHR 0x0A] @
    ''*'' @
    [CHR 0xE5, CHR 0x88, CHR 0xB0] @
    '':* '' @ toA @
    [CHR 0x0A] @
    ''*'' @
    [CHR 0xE6, CHR 0x95, CHR 0xB0, CHR 0xE9, CHR 0x87, CHR 0x8F] @
    '':* '' @ amt @
    [CHR 0x0A] @
    ''*'' @
    [CHR 0xE4, CHR 0xBB, CHR 0xB7, CHR 0xE6, CHR 0xA0, CHR 0xBC] @
    '':* '' @ price @
    [CHR 0x0A] @
    ''*'' @
    [CHR 0xE8, CHR 0xAE, CHR 0xA2, CHR 0xE5, CHR 0x8D, CHR 0x95] @
    '' ID:* '' @ oid"

definition limitOrderError :: "string" where
  \<comment> \<open>/placeorder: error thrown when no order id came back\<close>
  "limitOrderError =
    [CHR 0xE9, CHR 0x99, CHR 0x90, CHR 0xE4, CHR 0xBB, CHR 0xB7, CHR 0xE5, CHR 0x8D, CHR 0x95, CHR 0xE5,
     CHR 0x88, CHR 0x9B, CHR 0xE5, CHR 0xBB, CHR 0xBA, CHR 0xE5, CHR 0xA4, CHR 0xB1, CHR 0xE8, CHR 0xB4,
     CHR 0xA5, CHR 0xE3, CHR 0x80, CHR 0x82]"

definition limitOrderCancelled :: "string \<Rightarrow> string" where
  \<comment> \<open>/cancelorder: success text\<close>
  "limitOrderCancelled oid =
    [CHR 0xE2, CHR 0x9C, CHR 0x85] @
    '' *'' @
    [CHR 0xE9, CHR 0x99, CHR 0x90, CHR 0xE4, CHR 0xBB, CHR 0xB7, CHR 0xE5, CHR 0x8D, CHR 0x95, CHR 0xE5,
     CHR 0xB7, CHR 0xB2, CHR 0xE5, CHR 0x8F, CHR 0x96, CHR 0xE6, CHR 0xB6, CHR 0x88, CHR 0xEF, CHR 0xBC,
     CHR 0x81] @
    ''*'' @
    [CHR 0x0A, CHR 0x0A] @
    ''*'' @
    [CHR 0xE8, CHR 0xAE, CHR 0xA2, CHR 0xE5, CHR 0x8D, CHR 0x95] @
    '' ID:* '' @ oid"

definition limitCancelError :: "string" where
  \<comment> \<open>/cancelorder: error thrown when no order id came back\<close>
  "limitCancelError =
    [CHR 0xE9, CHR 0x99, CHR 0x90, CHR 0xE4, CHR 0xBB, CHR 0xB7, CHR 0xE5, CHR 0x8D, CHR 0x95, CHR 0xE5,
     CHR 0x8F, CHR 0x96, CHR 0xE6, CHR 0xB6, CHR 0x88, CHR 0xE5, CHR 0xA4, CHR 0xB1, CHR 0xE8, CHR 0xB4,
     CHR 0xA5, CHR 0xE3, CHR 0x80, CHR 0x82]"

definition exchangeInfoHeader :: "string" where
  \<comment> \<open>/exchangeinfo: header\<close>
  "exchangeInfoHeader =
    [CHR 0xF0, CHR 0x9F, CHR 0x93, CHR 0x88] @
    '' *'' @
    [CHR 0xE4, CHR 0xBA, CHR 0xA4, CHR 0xE6, CHR 0x98, CHR 0x93, CHR 0xE5, CHR 0xAF, CHR 0xB9, CHR 0xE4,
     CHR 0xBF, CHR 0xA1, CHR 0xE6, CHR 0x81, CHR 0xAF] @
    '':*'' @
    [CHR 0x0A, CHR 0x0A]"

definition exchangeInfoItem :: "string \<Rightarrow> string \<Rightarrow> string \<Rightarrow> string \<Rightarrow> string \<Rightarrow> string" where
  \<comment> \<open>/exchangeinfo: one numbered pair\<close>
  "exchangeInfoItem idx fromA toA mn mx =
    idx @ ''. *'' @
    [CHR 0xE4, CHR 0xBA, CHR 0xA4, CHR 0xE6, CHR 0x98, CHR 0x93, CHR 0xE5, CHR 0xAF, CHR 0xB9] @
    '':* '' @ fromA @ '' '' @
    [CHR 0xE2, CHR 0x86, CHR 0x94, CHR 0xEF, CHR 0xB8, CHR 0x8F] @
    '' '' @ toA @
    [CHR 0x0A] @
    ''   *'' @
    [CHR 0xE6, CHR 0x9C, CHR 0x80, CHR 0xE5, CHR 0xB0, CHR 0x8F, CHR 0xE9, CHR 0x87, CHR 0x91, CHR 0xE9,
     CHR 0xA2, CHR 0x9D] @
    '':* '' @ mn @
    [CHR 0x0A] @
    ''   *'' @
    [CHR 0xE6, CHR 0x9C, CHR 0x80, CHR 0xE5, CHR 0xA4, CHR 0xA7, CHR 0xE9, CHR 0x87, CHR 0x91, CHR 0xE9,
     CHR 0xA2, CHR 0x9D] @
    '':* '' @ mx @
    [CHR 0x0A, CHR 0x0A]"

definition exchangeInfoError :: "string" where
  \<comment> \<open>/exchangeinfo: error thrown when no pairs came back\<close>
  "exchangeInfoError =
    [CHR 0xE6, CHR 0x9C, CHR 0xAA, CHR 0xE8, CHR 0x83, CHR 0xBD, CHR 0xE8, CHR 0x8E, CHR 0xB7, CHR 0xE5,
     CHR 0x8F, CHR 0x96, CHR 0xE4, CHR 0xBA, CHR 0xA4, CHR 0xE6, CHR 0x98, CHR 0x93, CHR 0xE5, CHR 0xAF,
     CHR 0xB9, CHR 0xE4, CHR 0xBF, CHR 0xA1, CHR 0xE6, CHR 0x81, CHR 0xAF, CHR 0xE3, CHR 0x80, CHR 0x82]"

definition invalidPairQueryFormat :: "string" where
  \<comment> \<open>/exchangeinfo batch: invalid format\<close>
  "invalidPairQueryFormat =
    [CHR 0xE2, CHR 0x9A, CHR 0xA0, CHR 0xEF, CHR 0xB8, CHR 0x8F] @
    '' '' @
    [CHR 0xE6, CHR 0x97, CHR 0xA0, CHR 0xE6, CHR 0x95, CHR 0x88, CHR 0xE7, CHR 0x9A, CHR 0x84, CHR 0xE4,
     CHR 0xBA, CHR 0xA4, CHR 0xE6, CHR 0x98, CHR 0x93, CHR 0xE5, CHR 0xAF, CHR 0xB9, CHR 0xE6, CHR 0x9F,
     CHR 0xA5, CHR 0xE8, CHR 0xAF, CHR 0xA2, CHR 0xE6, CHR 0xA0, CHR 0xBC, CHR 0xE5, CHR 0xBC, CHR 0x8F,
     CHR 0xE3, CHR 0x80, CHR 0x82, CHR 0xE8, CHR 0xAF, CHR 0xB7, CHR 0xE4, CHR 0xBD, CHR 0xBF, CHR 0xE7,
     CHR 0x94, CHR 0xA8] @
    '' '' @
    [CHR 0x60] @
    ''fromAsset:toAsset'' @
    [CHR 0x60] @
    '' '' @
    [CHR 0xE7, CHR 0x9A, CHR 0x84, CHR 0xE6, CHR 0xA0, CHR 0xBC, CHR 0xE5, CHR 0xBC, CHR 0x8F, CHR 0xE3,
     CHR 0x80, CHR 0x82]"

definition pairsNotFoundHeader :: "string \<Rightarrow> string" where
  \<comment> \<open>/exchangeinfo batch: pairs not found\<close>
  "pairsNotFoundHeader xs =
    [CHR 0xE2, CHR 0x9A, CHR 0xA0, CHR 0xEF, CHR 0xB8, CHR 0x8F] @
    '' '' @
    [CHR 0xE4, CHR 0xBB, CHR 0xA5, CHR 0xE4, CHR 0xB8, CHR 0x8B, CHR 0xE4, CHR 0xBA, CHR 0xA4, CHR 0xE6,
     CHR 0x98, CHR 0x93, CHR 0xE5, CHR 0xAF, CHR 0xB9, CHR 0xE4, CHR 0xBF, CHR 0xA1, CHR 0xE6, CHR 0x81,
     CHR 0xAF, CHR 0xE6, CHR 0x9C, CHR 0xAA, CHR 0xE6, CHR 0x89, CHR 0xBE, CHR 0xE5, CHR 0x88, CHR 0xB0,
     CHR 0xE6, CHR 0x88, CHR 0x96, CHR 0xE8, CHR 0x8E, CHR 0xB7, CHR 0xE5, CHR 0x8F, CHR 0x96, CHR 0xE5,
     CHR 0xA4, CHR 0xB1, CHR 0xE8, CHR 0xB4, CHR 0xA5] @
    '':'' @
    [CHR 0x0A] @
    xs"

definition noPairInfo :: "string" where
  \<comment> \<open>/exchangeinfo batch: nothing found\<close>
  "noPairInfo =
    [CHR 0xE2, CHR 0x9A, CHR 0xA0, CHR 0xEF, CHR 0xB8, CHR 0x8F] @
    '' '' @
    [CHR 0xE6, CHR 0x9C, CHR 0xAA, CHR 0xE6, CHR 0x89, CHR 0xBE, CHR 0xE5, CHR 0x88, CHR 0xB0, CHR 0xE4,
     CHR 0xBB, CHR 0xBB, CHR 0xE4, CHR 0xBD, CHR 0x95, CHR 0xE6, CHR 0x9C, CHR 0x89, CHR 0xE6, CHR 0x95,
     CHR 0x88, CHR 0xE7, CHR 0x9A, CHR 0x84, CHR 0xE4, CHR 0xBA, CHR 0xA4, CHR 0xE6, CHR 0x98, CHR 0x93,
     CHR 0xE5, CHR 0xAF, CHR 0xB9, CHR 0xE4, CHR 0xBF, CHR 0xA1, CHR 0xE6, CHR 0x81, CHR 0xAF, CHR 0xE3,
     CHR 0x80, CHR 0x82]"

definition invalidAssetQueryFormat :: "string" where
  \<comment> \<open>/assetinfo: invalid format\<close>
  "invalidAssetQueryFormat =
    [CHR 0xE2, CHR 0x9A, CHR 0xA0, CHR 0xEF, CHR 0xB8, CHR 0x8F] @
    '' '' @
    [CHR 0xE6, CHR 0x97, CHR 0xA0, CHR 0xE6, CHR 0x95, CHR 0x88, CHR 0xE7, CHR 0x9A, CHR 0x84, CHR 0xE8,
     CHR 0xB5, CHR 0x84, CHR 0xE4, CHR 0xBA, CHR 0xA7, CHR 0xE6, CHR 0x9F, CHR 0xA5, CHR 0xE8, CHR 0xAF,
     CHR 0xA2, CHR 0xE6, CHR 0xA0, CHR 0xBC, CHR 0xE5, CHR 0xBC, CHR 0x8F, CHR 0xE3, CHR 0x80, CHR 0x82,
     CHR 0xE8, CHR 0xAF, CHR 0xB7, CHR 0xE4, CHR 0xBD, CHR 0xBF, CHR 0xE7, CHR 0x94, CHR 0xA8] @
    '' '' @
    [CHR 0x60] @
    ''Asset1, Asset2'' @
    [CHR 0x60] @
    '' '' @
    [CHR 0xE7, CHR 0x9A, CHR 0x84, CHR 0xE6, CHR 0xA0, CHR 0xBC, CHR 0xE5, CHR 0xBC, CHR 0x8F, CHR 0xE3,
     CHR 0x80, CHR 0x82]"

definition assetInfoHeader :: "string" where
  \<comment> \<open>/assetinfo: header\<close>
  "assetInfoHeader =
    [CHR 0xF0, CHR 0x9F, CHR 0x93, CHR 0x8A] @
    '' *'' @
    [CHR 0xE8, CHR 0xB5, CHR 0x84, CHR 0xE4, CHR 0xBA, CHR 0xA7, CHR 0xE7, CHR 0xB2, CHR 0xBE, CHR 0xE5,
     CHR 0xBA, CHR 0xA6, CHR 0xE4, CHR 0xBF, CHR 0xA1, CHR 0xE6, CHR 0x81, CHR 0xAF] @
    '':*'' @
    [CHR 0x0A, CHR 0x0A]"

definition assetInfoItem :: "string \<Rightarrow> string \<Rightarrow> string \<Rightarrow> string" where
  \<comment> \<open>/assetinfo: one numbered asset\<close>
  "assetInfoItem idx a p =
    idx @ ''. *'' @
    [CHR 0xE8, CHR 0xB5, CHR 0x84, CHR 0xE4, CHR 0xBA, CHR 0xA7] @
    '':* '' @ a @
    [CHR 0x0A] @
    ''   *'' @
    [CHR 0xE7, CHR 0xB2, CHR 0xBE, CHR 0xE5, CHR 0xBA, CHR 0xA6] @
    '':* '' @ p @
    [CHR 0x0A, CHR 0x0A]"

definition assetsNotFoundHeader :: "string \<Rightarrow> string" where
  \<comment> \<open>/assetinfo: assets not found\<close>
  "assetsNotFoundHeader xs =
    [CHR 0xE2, CHR 0x9A, CHR 0xA0, CHR 0xEF, CHR 0xB8, CHR 0x8F] @
    '' '' @
    [CHR 0xE4, CHR 0xBB, CHR 0xA5, CHR 0xE4, CHR 0xB8, CHR 0x8B, CHR 0xE8, CHR 0xB5, CHR 0x84, CHR 0xE4,
     CHR 0xBA, CHR 0xA7, CHR 0xE4, CHR 0xBF, CHR 0xA1, CHR 0xE6, CHR 0x81, CHR 0xAF, CHR 0xE6, CHR 0x9C,
     CHR 0xAA, CHR 0xE6, CHR 0x89, CHR 0xBE, CHR 0xE5, CHR 0x88, CHR 0xB0, CHR 0xE6, CHR 0x88, CHR 0x96,
     CHR 0xE8, CHR 0x8E, CHR 0xB7, CHR 0xE5, CHR 0x8F, CHR 0x96, CHR 0xE5, CHR 0xA4, CHR 0xB1, CHR 0xE8,
     CHR 0xB4, CHR 0xA5] @
    '':'' @
    [CHR 0x0A] @
    xs"

definition noAssetInfo :: "string" where
  \<comment> \<open>/assetinfo: nothing found\<close>
  "noAssetInfo =
    [CHR 0xE2, CHR 0x9A, CHR 0xA0, CHR 0xEF, CHR 0xB8, CHR 0x8F] @
    '' '' @
    [CHR 0xE6, CHR 0x9C, CHR 0xAA, CHR 0xE6, CHR 0x89, CHR 0xBE, CHR 0xE5, CHR 0x88, CHR 0xB0, CHR 0xE4,
     CHR 0xBB, CHR 0xBB, CHR 0xE4, CHR 0xBD, CHR 0x95, CHR 0xE6, CHR 0x9C, CHR 0x89, CHR 0xE6, CHR 0x95,
     CHR 0x88, CHR 0xE7, CHR 0x9A, CHR 0x84, CHR 0xE8, CHR 0xB5, CHR 0x84, CHR 0xE4, CHR 0xBA, CHR 0xA7,
     CHR 0xE7, CHR 0xB2, CHR 0xBE, CHR 0xE5, CHR 0xBA, CHR 0xA6, CHR 0xE4, CHR 0xBF, CHR 0xA1, CHR 0xE6,
     CHR 0x81, CHR 0xAF, CHR 0xE3, CHR 0x80, CHR 0x82]"

definition permissionDeniedMessage :: "string" where
  \<comment> \<open>admin commands: "you have no permission"\<close>
  "permissionDeniedMessage =
    [CHR 0xE2, CHR 0x9A, CHR 0xA0, CHR 0xEF, CHR 0xB8, CHR 0x8F] @
    '' '' @
    [CHR 0xE6, CHR 0x82, CHR 0xA8, CHR 0xE6, CHR 0xB2, CHR 0xA1, CHR 0xE6, CHR 0x9C, CHR 0x89, CHR 0xE6,
     CHR 0x9D, CHR 0x83, CHR 0xE9, CHR 0x99, CHR 0x90, CHR 0xE6, CHR 0x89, CHR 0xA7, CHR 0xE8, CHR 0xA1,
     CHR 0x8C, CHR 0xE6, CHR 0xAD, CHR 0xA4, CHR 0xE6, CHR 0x93, CHR 0x8D, CHR 0xE4, CHR 0xBD, CHR 0x9C,
     CHR 0xE3, CHR 0x80, CHR 0x82]"

definition invalidPairFormat :: "string" where
  \<comment> \<open>/addassets, /removeassets: invalid format\<close>
  "invalidPairFormat =
    [CHR 0xE2, CHR 0x9A, CHR 0xA0, CHR 0xEF, CHR 0xB8, CHR 0x8F] @
    '' '' @
    [CHR 0xE6, CHR 0x97, CHR 0xA0, CHR 0xE6, CHR 0x95, CHR 0x88, CHR 0xE7, CHR 0x9A, CHR 0x84, CHR 0xE8,
     CHR 0xB5, CHR 0x84, CHR 0xE4, CHR 0xBA, CHR 0xA7, CHR 0xE5, CHR 0x85, CHR 0x91, CHR 0xE6, CHR 0x8D,
     CHR 0xA2, CHR 0xE5, CHR 0xAF, CHR 0xB9, CHR 0xE6, CHR 0xA0, CHR 0xBC, CHR 0xE5, CHR 0xBC, CHR 0x8F,
     CHR 0xE3, CHR 0x80, CHR 0x82, CHR 0xE8, CHR 0xAF, CHR 0xB7, CHR 0xE4, CHR 0xBD, CHR 0xBF, CHR 0xE7,
     CHR 0x94, CHR 0xA8] @
    '' '' @
    [CHR 0x60] @
    ''fromAsset:toAsset'' @
    [CHR 0x60] @
    '' '' @
    [CHR 0xE7, CHR 0x9A, CHR 0x84, CHR 0xE6, CHR 0xA0, CHR 0xBC, CHR 0xE5, CHR 0xBC, CHR 0x8F, CHR 0xE3,
     CHR 0x80, CHR 0x82]"

definition pairLabel :: "string \<Rightarrow> string \<Rightarrow> string" where
  \<comment> \<open>a pair shown with the two-way arrow\<close>
  "pairLabel fromA toA =
    fromA @ '' '' @
    [CHR 0xE2, CHR 0x86, CHR 0x94, CHR 0xEF, CHR 0xB8, CHR 0x8F] @
    '' '' @ toA"

definition addedPairsMessage :: "string \<Rightarrow> string" where
  \<comment> \<open>/addassets: pairs added\<close>
  "addedPairsMessage xs =
    [CHR 0xE2, CHR 0x9C, CHR 0x85] @
    '' '' @
    [CHR 0xE6, CHR 0x88, CHR 0x90, CHR 0xE5, CHR 0x8A, CHR 0x9F, CHR 0xE6, CHR 0xB7, CHR 0xBB, CHR 0xE5,
     CHR 0x8A, CHR 0xA0, CHR 0xE4, CHR 0xBB, CHR 0xA5, CHR 0xE4, CHR 0xB8, CHR 0x8B, CHR 0xE8, CHR 0xB5,
     CHR 0x84, CHR 0xE4, CHR 0xBA, CHR 0xA7, CHR 0xE5, CHR 0x85, CHR 0x91, CHR 0xE6, CHR 0x8D, CHR 0xA2,
     CHR 0xE5, CHR 0xAF, CHR 0xB9] @
    '':'' @
    [CHR 0x0A] @
    xs @
    [CHR 0x0A, CHR 0x0A]"

definition existingPairsMessage :: "string \<Rightarrow> string" where
  \<comment> \<open>/addassets: pairs already present\<close>
  "existingPairsMessage xs =
    [CHR 0xE2, CHR 0x9A, CHR 0xA0, CHR 0xEF, CHR 0xB8, CHR 0x8F] @
    '' '' @
    [CHR 0xE4, CHR 0xBB, CHR 0xA5, CHR 0xE4, CHR 0xB8, CHR 0x8B, CHR 0xE8, CHR 0xB5, CHR 0x84, CHR 0xE4,
     CHR 0xBA, CHR 0xA7, CHR 0xE5, CHR 0x85, CHR 0x91, CHR 0xE6, CHR 0x8D, CHR 0xA2, CHR 0xE5, CHR 0xAF,
     CHR 0xB9, CHR 0xE5, CHR 0xB7, CHR 0xB2, CHR 0xE5, CHR 0xAD, CHR 0x98, CHR 0xE5, CHR 0x9C, CHR 0xA8,
     CHR 0xEF, CHR 0xBC, CHR 0x8C, CHR 0xE6, CHR 0x9C, CHR 0xAA, CHR 0xE9, CHR 0x87, CHR 0x8D, CHR 0xE5,
     CHR 0xA4, CHR 0x8D, CHR 0xE6, CHR 0xB7, CHR 0xBB, CHR 0xE5, CHR 0x8A, CHR 0xA0] @
    '':'' @
    [CHR 0x0A] @
    xs"

definition removedPairsMessage :: "string \<Rightarrow> string" where
  \<comment> \<open>/removeassets: pairs removed\<close>
  "removedPairsMessage xs =
    [CHR 0xE2, CHR 0x9C, CHR 0x85] @
    '' '' @
    [CHR 0xE6, CHR 0x88, CHR 0x90, CHR 0xE5, CHR 0x8A, CHR 0x9F, CHR 0xE7, CHR 0xA7, CHR 0xBB, CHR 0xE9,
     CHR 0x99, CHR 0xA4, CHR 0xE4, CHR 0xBB, CHR 0xA5, CHR 0xE4, CHR 0xB8, CHR 0x8B, CHR 0xE8, CHR 0xB5,
     CHR 0x84, CHR 0xE4, CHR 0xBA, CHR 0xA7, CHR 0xE5, CHR 0x85, CHR 0x91, CHR 0xE6, CHR 0x8D, CHR 0xA2,
     CHR 0xE5, CHR 0xAF, CHR 0xB9] @
    '':'' @
    [CHR 0x0A] @
    xs @
    [CHR 0x0A, CHR 0x0A]"

definition notFoundPairsMessage :: "string \<Rightarrow> string" where
  \<comment> \<open>/removeassets: pairs not present\<close>
  "notFoundPairsMessage xs =
    [CHR 0xE2, CHR 0x9A, CHR 0xA0, CHR 0xEF, CHR 0xB8, CHR 0x8F] @
    '' '' @
    [CHR 0xE4, CHR 0xBB, CHR 0xA5, CHR 0xE4, CHR 0xB8, CHR 0x8B, CHR 0xE8, CHR 0xB5, CHR 0x84, CHR 0xE4,
     CHR 0xBA, CHR 0xA7, CHR 0xE5, CHR 0x85, CHR 0x91, CHR 0xE6, CHR 0x8D, CHR 0xA2, CHR 0xE5, CHR 0xAF,
     CHR 0xB9, CHR 0xE4, CHR 0xB8, CHR 0x8D, CHR 0xE5, CHR 0xAD, CHR 0x98, CHR 0xE5, CHR 0x9C, CHR 0xA8,
     CHR 0xEF, CHR 0xBC, CHR 0x8C, CHR 0xE6, CHR 0x97, CHR 0xA0, CHR 0xE6, CHR 0xB3, CHR 0x95, CHR 0xE7,
     CHR 0xA7, CHR 0xBB, CHR 0xE9, CHR 0x99, CHR 0xA4] @
    '':'' @
    [CHR 0x0A] @
    xs"

definition unknownCommandMessage :: "string" where
  \<comment> \<open>second message listener: "unknown command"\<close>
  "unknownCommandMessage =
    [CHR 0xE2, CHR 0x9A, CHR 0xA0, CHR 0xEF, CHR 0xB8, CHR 0x8F] @
    '' '' @
    [CHR 0xE6, CHR 0x9C, CHR 0xAA, CHR 0xE7, CHR 0x9F, CHR 0xA5, CHR 0xE5, CHR 0x91, CHR 0xBD, CHR 0xE4,
     CHR 0xBB, CHR 0xA4, CHR 0xE3, CHR 0x80, CHR 0x82, CHR 0xE8, CHR 0xAF, CHR 0xB7, CHR 0xE4, CHR 0xBD,
     CHR 0xBF, CHR 0xE7, CHR 0x94, CHR 0xA8] @
    '' /help '' @
    [CHR 0xE6, CHR 0x9F, CHR 0xA5, CHR 0xE7, CHR 0x9C, CHR 0x8B, CHR 0xE5, CHR 0x8F, CHR 0xAF, CHR 0xE7,
     CHR 0x94, CHR 0xA8, CHR 0xE5, CHR 0x91, CHR 0xBD, CHR 0xE4, CHR 0xBB, CHR 0xA4, CHR 0xE3, CHR 0x80,
     CHR 0x82]"

definition noQuoteText :: "string" where
  \<comment> \<open>instantConvert: "could not get a quote"\<close>
  "noQuoteText =
    [CHR 0xE6, CHR 0x9C, CHR 0xAA, CHR 0xE8, CHR 0x83, CHR 0xBD, CHR 0xE8, CHR 0x8E, CHR 0xB7, CHR 0xE5,
     CHR 0x8F, CHR 0x96, CHR 0xE9, CHR 0x97, CHR 0xAA, CHR 0xE5, CHR 0x85, CHR 0x91, CHR 0xE6, CHR 0x8A,
     CHR 0xA5, CHR 0xE4, CHR 0xBB, CHR 0xB7]"

definition acceptFailedText :: "string" where
  \<comment> \<open>instantConvert: "conversion execution failed"\<close>
  "acceptFailedText =
    [CHR 0xE9, CHR 0x97, CHR 0xAA, CHR 0xE5, CHR 0x85, CHR 0x91, CHR 0xE4, CHR 0xBA, CHR 0xA4, CHR 0xE6,
     CHR 0x98, CHR 0x93, CHR 0xE6, CHR 0x89, CHR 0xA7, CHR 0xE8, CHR 0xA1, CHR 0x8C, CHR 0xE5, CHR 0xA4,
     CHR 0xB1, CHR 0xE8, CHR 0xB4, CHR 0xA5]"

definition convertSucceeded :: "string \<Rightarrow> string \<Rightarrow> string \<Rightarrow> string \<Rightarrow> string" where
  \<comment> \<open>instantConvert: success text\<close>
  "convertSucceeded fromA toA amt oid =
    [CHR 0xE2, CHR 0x9C, CHR 0x85] @
    '' *'' @
    [CHR 0xE8, CHR 0xBD, CHR 0xAC, CHR 0xE6, CHR 0x8D, CHR 0xA2, CHR 0xE6, CHR 0x88, CHR 0x90, CHR 0xE5,
     CHR 0x8A, CHR 0x9F, CHR 0xEF, CHR 0xBC, CHR 0x81] @
    ''*'' @
    [CHR 0x0A, CHR 0x0A] @
    ''*'' @
    [CHR 0xE4, CHR 0xBB, CHR 0x8E] @
    '':* '' @ fromA @
    [CHR 0x0A] @
    ''*'' @
    [CHR 0xE5, CHR 0x88, CHR 0xB0] @
    '':* '' @ toA @
    [CHR 0x0A] @
    ''*'' @
    [CHR 0xE6, CHR 0x95, CHR 0xB0, CHR 0xE9, CHR 0x87, CHR 0x8F] @
    '':* '' @ amt @
    [CHR 0x0A] @
    ''*'' @
    [CHR 0xE8, CHR 0xAE, CHR 0xA2, CHR 0xE5, CHR 0x8D, CHR 0x95] @
    '' ID:* '' @ oid"

section \<open>State, configuration and environment\<close>

text \<open>
  \<^verbatim>\<open>userRateLimits\<close> maps a chat id to \<^verbatim>\<open>{count, lastReset, lang}\<close>. A registry entry, an
  order row and a pair of the exchange information all carry \<^verbatim>\<open>fromAsset\<close> and \<^verbatim>\<open>toAsset\<close>;
  in an order row the two columns are nullable. An order row holds the values bound by
  the \<^verbatim>\<open>INSERT\<close> and the default \<^verbatim>\<open>CURRENT_TIMESTAMP\<close> of the table of \<^verbatim>\<open>src/db/database.js\<close>.
\<close>

record rate_entry =
  count :: int
  lastReset :: int
  lang :: string

record 'a assets =
  fromAsset :: 'a
  toAsset :: 'a

type_synonym supported_pair = "string assets"

record order = "string option assets" +
  orderId :: string
  chatId :: int
  amount :: jsnum
  status :: string
  error :: "string option"
  timestamp :: string

record pair_info = "string assets" +
  minAmount :: string
  maxAmount :: string

record asset_info =
  asset :: string
  precision :: string

datatype recipient = Chat int | ChatRef string

datatype markup =
    NoMarkup
  | Keyboard "string list list"
  | InlineKeyboard "(string \<times> string) list list"

record message =
  recipient :: recipient
  body :: string
  markdown :: bool
  markup :: markup

datatype call =
    GetConvertQuoteOptimized "string option" "string option" jsnum
  | AcceptConvertQuote string
  | PlaceConvertLimitOrder string string jsnum jsnum
  | CancelConvertLimitOrder string
  | GetExchangeInfo
  | GetAssetInfo

record config =
  RATE_LIMIT_WINDOW_MS :: int
  RATE_LIMIT_MAX_REQUESTS :: int
  ADMIN_CHAT_ID :: string

definition main_config :: "string \<Rightarrow> config" where
  \<comment> \<open>the configuration \<^verbatim>\<open>src/main.js\<close> passes to \<^verbatim>\<open>initialize\<close>\<close>
  "main_config admin =
     \<lparr>RATE_LIMIT_WINDOW_MS = 60 * 1000, RATE_LIMIT_MAX_REQUESTS = 10, ADMIN_CHAT_ID = admin\<rparr>"

text \<open>
  The environment of one update: the clock, the translations of i18next, the number
  primitives, the random bytes, the answers of the exchange and the outcome of writing
  the registry file. Every operation of the exchange client (\<^verbatim>\<open>src/binance/binance.js\<close>)
  makes one HTTP request and returns the body of the response, or throws the error of the
  request again; so an answer is \<open>Threw m\<close> for a failed request with message \<open>m\<close>,
  \<open>Returned None\<close> for a body without the field the handler reads (quote id, order id,
  pairs, assets) and \<open>Returned (Some x)\<close> for a body with that field. The handlers test
  an id for truthiness, so an empty id counts as no id (\<open>truthy\<close>). The answers are
  indexed by the number of exchange calls made before.
\<close>

record env =
  date_now :: int
  db_time :: string
  translate :: "string \<Rightarrow> string \<Rightarrow> (string \<times> string) list \<Rightarrow> string"
  parseFloat :: "string \<Rightarrow> jsnum"
  numToString :: "jsnum \<Rightarrow> string"
  randomHex :: "nat \<Rightarrow> string"
  getConvertQuoteOptimized :: "nat \<Rightarrow> string option \<Rightarrow> string option \<Rightarrow> jsnum \<Rightarrow> string option result"
  acceptConvertQuote :: "nat \<Rightarrow> string \<Rightarrow> string option result"
  placeConvertLimitOrder :: "nat \<Rightarrow> string \<Rightarrow> string \<Rightarrow> jsnum \<Rightarrow> jsnum \<Rightarrow> string option result"
  cancelConvertLimitOrder :: "nat \<Rightarrow> string \<Rightarrow> string option result"
  getExchangeInfo :: "nat \<Rightarrow> pair_info list option result"
  getAssetInfo :: "nat \<Rightarrow> asset_info list option result"
  writeFile :: "supported_pair list \<Rightarrow> string option"

text \<open>
  The state: the two process-wide registries, the registry file, the order table, and
  the effects sent out (messages, answered callback queries, exchange calls); the
  number of random ids drawn; the errors the database emits. Sending a message always
  succeeds (the transport is a collaborator), and the log is left out.
\<close>

record state =
  userRateLimits :: "int \<rightharpoonup> rate_entry"
  supportedAssets :: "supported_pair list"
  assetsFile :: "supported_pair list"
  orders :: "order list"
  outbox :: "message list"
  answered :: "string list"
  calls :: "call list"
  randomCalls :: nat
  dbErrors :: "string list"

section \<open>Primitives\<close>

definition sendMessage :: "recipient \<Rightarrow> string \<Rightarrow> bool \<Rightarrow> markup \<Rightarrow> state \<Rightarrow> state" where
  "sendMessage r s md mk st =
     st\<lparr>outbox := outbox st @ [\<lparr>recipient = r, body = s, markdown = md, markup = mk\<rparr>]\<rparr>"

definition sendPersistentMenu :: "int \<Rightarrow> state \<Rightarrow> state" where
  "sendPersistentMenu cid st =
     sendMessage (Chat cid) menuPrompt False
       (Keyboard [[labelConvert, labelStatus], [labelProfile, labelHelp]]) st"

definition sendErrorNotification :: "config \<Rightarrow> string \<Rightarrow> state \<Rightarrow> state" where
  \<comment> \<open>\<^verbatim>\<open>src/main.js\<close>\<close>
  "sendErrorNotification cfg m st =
     sendMessage (ChatRef (ADMIN_CHAT_ID cfg)) (errorReport (escapeMarkdownV2 m)) True NoMarkup st"

definition failedReply :: "int \<Rightarrow> string \<Rightarrow> state \<Rightarrow> state" where
  \<comment> \<open>the first two statements of most catch blocks: the error message is escaped,
      put after the prefix, and the whole is escaped again\<close>
  "failedReply cid m st =
     sendMessage (Chat cid) (escapeMarkdownV2 (failedMessage (escapeMarkdownV2 m))) True NoMarkup st"

definition logCall :: "call \<Rightarrow> state \<Rightarrow> state" where
  "logCall c st = st\<lparr>calls := calls st @ [c]\<rparr>"

definition isAdmin :: "config \<Rightarrow> int \<Rightarrow> bool" where
  "isAdmin cfg cid = (int_toString cid = ADMIN_CHAT_ID cfg)"

definition userLang :: "state \<Rightarrow> int \<Rightarrow> string" where
  \<comment> \<open>\<^verbatim>\<open>userRateLimits[chatId]?.lang || 'zh'\<close>\<close>
  "userLang st cid = (case userRateLimits st cid of None \<Rightarrow> ''zh'' | Some e \<Rightarrow> str_or (lang e) ''zh'')"

definition pairMatches :: "string \<Rightarrow> string \<Rightarrow> (string, 'z) assets_scheme \<Rightarrow> bool" where
  \<comment> \<open>the arrow function every pair lookup of the source passes to \<^verbatim>\<open>some\<close>, \<^verbatim>\<open>find\<close> or
      \<^verbatim>\<open>findIndex\<close>\<close>
  "pairMatches a b p \<longleftrightarrow>
     (fromAsset p = a \<and> toAsset p = b) \<or> (fromAsset p = b \<and> toAsset p = a)"

definition isSupported :: "supported_pair list \<Rightarrow> string \<Rightarrow> string \<Rightarrow> bool" where
  \<comment> \<open>\<^verbatim>\<open>binance.supportedAssets.some(pair => ...)\<close>\<close>
  "isSupported reg a b = list_ex (pairMatches a b) reg"

subsection \<open>The order table\<close>

text \<open>
  \<^verbatim>\<open>src/db/database.js\<close> exports the sqlite3 \<^verbatim>\<open>Database\<close> object \<^verbatim>\<open>db\<close> and, beside it, the
  promisified \<^verbatim>\<open>run\<close>, \<^verbatim>\<open>get\<close> and \<^verbatim>\<open>all\<close>; \<^verbatim>\<open>src/main.js\<close> passes \<^verbatim>\<open>db\<close> itself to the
  handlers. The methods \<^verbatim>\<open>run\<close>, \<^verbatim>\<open>get\<close> and \<^verbatim>\<open>all\<close> of that object hand their result to a
  callback and return the \<^verbatim>\<open>Database\<close> object, and the handlers await them without a
  callback. So an \<^verbatim>\<open>INSERT\<close> or \<^verbatim>\<open>UPDATE\<close> is carried out, but the error of a statement (a second
  row with one primary key) is never thrown into the handler: the database emits it and
  the handler goes on. And what a handler gets from \<^verbatim>\<open>get\<close> or \<^verbatim>\<open>all\<close> is the \<^verbatim>\<open>Database\<close>
  object: it is truthy, and its \<^verbatim>\<open>orderId\<close>, \<^verbatim>\<open>status\<close>, \<^verbatim>\<open>error\<close> and \<^verbatim>\<open>length\<close> are undefined.
\<close>

definition uniqueViolation :: string where
  \<comment> \<open>the message of the error of sqlite3 on a second row with one primary key\<close>
  "uniqueViolation = ''SQLITE_CONSTRAINT: UNIQUE constraint failed: orders.orderId''"

definition db_insert :: "order \<Rightarrow> state \<Rightarrow> state" where
  \<comment> \<open>\<^verbatim>\<open>await db.run(`INSERT INTO orders ...`)\<close>; \<^verbatim>\<open>orderId\<close> is the primary key: a row whose id
      the table holds is not inserted, and nothing is thrown\<close>
  "db_insert row st =
     (if list_ex (\<lambda>r. orderId r = orderId row) (orders st)
      then st\<lparr>dbErrors := dbErrors st @ [uniqueViolation]\<rparr>
      else st\<lparr>orders := orders st @ [row]\<rparr>)"

definition db_update_status :: "string \<Rightarrow> string \<Rightarrow> state \<Rightarrow> state" where
  \<comment> \<open>\<^verbatim>\<open>await db.run(`UPDATE orders SET status = ? WHERE orderId = ?`)\<close>\<close>
  "db_update_status s oid st =
     st\<lparr>orders := map (\<lambda>r. if orderId r = oid then r\<lparr>status := s\<rparr> else r) (orders st)\<rparr>"

record fetched =
  got_orderId :: "string option"
  got_status :: "string option"
  got_error :: "string option"

definition db_get :: "string \<Rightarrow> int \<Rightarrow> state \<Rightarrow> fetched option" where
  \<comment> \<open>\<^verbatim>\<open>await db.get(`SELECT * FROM orders WHERE orderId = ? AND chatId = ?`)\<close>: the
      \<^verbatim>\<open>Database\<close> object, read as an order; it has none of the columns\<close>
  "db_get oid cid st = Some \<lparr>got_orderId = None, got_status = None, got_error = None\<rparr>"

definition db_all :: "int \<Rightarrow> state \<Rightarrow> order list option" where
  \<comment> \<open>\<^verbatim>\<open>await db.all(`SELECT * FROM orders WHERE chatId = ? ORDER BY timestamp DESC LIMIT 10`)\<close>:
      the \<^verbatim>\<open>Database\<close> object, which is no list of rows (None: its length is undefined)\<close>
  "db_all cid st = None"

definition undefinedReplaceError :: string where
  \<comment> \<open>the TypeError of \<^verbatim>\<open>escapeMarkdownV2(undefined)\<close>\<close>
  "undefinedReplaceError =
     ''Cannot read properties of undefined (reading '' @ [CHR 0x27] @ ''replace'' @ [CHR 0x27] @ '')''"

section \<open>The handlers of \<^verbatim>\<open>src/telegram/bot.js\<close>\<close>

definition start_handler :: "env \<Rightarrow> int \<Rightarrow> state \<Rightarrow> state" where
  "start_handler env cid st =
     (let st1 = (case userRateLimits st cid of
                   None \<Rightarrow> st\<lparr>userRateLimits := (userRateLimits st)
                              (cid \<mapsto> \<lparr>count = 0, lastReset = date_now env, lang = ''zh''\<rparr>)\<rparr>
                 | Some e \<Rightarrow> st)
      in sendPersistentMenu cid
           (sendMessage (Chat cid) (escapeMarkdownV2 welcomeMessage) True NoMarkup st1))"

definition message_handler :: "env \<Rightarrow> int \<Rightarrow> string option \<Rightarrow> state \<Rightarrow> state" where
  \<comment> \<open>the first \<^verbatim>\<open>bot.on('message')\<close>: the menu labels, and a localized reply to any other
      text that is not a command\<close>
  "message_handler env cid txt st =
     (let s = (case txt of None \<Rightarrow> [] | Some x \<Rightarrow> x) in
      if startsWith s ''/'' then st
      else if s = labelConvert then sendMessage (Chat cid) convertHint False NoMarkup st
      else if s = labelStatus then sendMessage (Chat cid) statusHint False NoMarkup st
      else if s = labelProfile then sendMessage (Chat cid) profileHint False NoMarkup st
      else if s = labelHelp then
        sendMessage (Chat cid)
          (escapeMarkdownV2 (translate env (userLang st cid) ''help.content'' [])) True NoMarkup st
      else
        sendMessage (Chat cid)
          (escapeMarkdownV2 (translate env (userLang st cid) ''unknown_command'' [])) True NoMarkup st)"

definition help_handler :: "env \<Rightarrow> int \<Rightarrow> state \<Rightarrow> state" where
  "help_handler env cid st =
     sendPersistentMenu cid
       (sendMessage (Chat cid)
          (escapeMarkdownV2 (translate env (userLang st cid) ''help.content'' [])) True NoMarkup st)"

subsection \<open>\<^verbatim>\<open>/convert\<close> and the rate limiter\<close>

definition rateLimitEntry :: "config \<Rightarrow> int \<Rightarrow> rate_entry option \<Rightarrow> rate_entry" where
  \<comment> \<open>the entry of the chat after the update of lines 159 to 169\<close>
  "rateLimitEntry cfg tnow e =
     (case e of
        None \<Rightarrow> \<lparr>count = 1, lastReset = tnow, lang = ''zh''\<rparr>
      | Some r \<Rightarrow>
          if tnow - lastReset r > RATE_LIMIT_WINDOW_MS cfg
          then r\<lparr>count := 1, lastReset := tnow\<rparr>
          else r\<lparr>count := count r + 1\<rparr>)"

definition rateLimitMessage :: "env \<Rightarrow> rate_entry \<Rightarrow> string" where
  "rateLimitMessage env e =
     str_or (translate env (str_or (lang e) ''zh'') ''rate_limit_exceeded'' []) rateLimitFallback"

definition convert_checked :: "env \<Rightarrow> int \<Rightarrow> string \<Rightarrow> string \<Rightarrow> jsnum \<Rightarrow> state \<Rightarrow> state" where
  \<comment> \<open>lines 180 to 207, what follows the rate limiter: the pair check and the prompt\<close>
  "convert_checked env cid fromA toA amt st =
     (if \<not> isSupported (supportedAssets st) fromA toA then
        sendMessage (Chat cid) (escapeMarkdownV2 (notSupportedMessage fromA toA)) True NoMarkup st
      else
        sendMessage (Chat cid)
          (escapeMarkdownV2 (confirmMessage (numToString env amt) fromA toA)) True
          (InlineKeyboard
             [[(confirmButton, confirmCallbackData fromA toA (numToString env amt)),
               (cancelButton, ''cancel_convert'')]]) st)"

definition convert_handler :: "config \<Rightarrow> env \<Rightarrow> int \<Rightarrow> string \<times> string \<times> string \<Rightarrow> state \<Rightarrow> state" where
  "convert_handler cfg env cid m st =
     (let fromA = toUpperCase (fst m);
          toA = toUpperCase (fst (snd m));
          amt = parseFloat env (snd (snd m));
          entry = rateLimitEntry cfg (date_now env) (userRateLimits st cid);
          st1 = st\<lparr>userRateLimits := (userRateLimits st)(cid \<mapsto> entry)\<rparr>
      in if count entry > RATE_LIMIT_MAX_REQUESTS cfg then
           sendMessage (Chat cid) (escapeMarkdownV2 (rateLimitMessage env entry)) True NoMarkup st1
         else convert_checked env cid fromA toA amt st1)"

fun convert_seq :: "config \<Rightarrow> int \<Rightarrow> (env \<times> (string \<times> string \<times> string)) list \<Rightarrow> state \<Rightarrow> state" where
  \<comment> \<open>successive \<^verbatim>\<open>/convert\<close> commands of one chat, each with the environment of its
      update and its match\<close>
  "convert_seq cfg cid [] st = st"
| "convert_seq cfg cid (ev # evs) st =
     convert_seq cfg cid evs (convert_handler cfg (fst ev) cid (snd ev) st)"

subsection \<open>The Instant Conversion protocol and the callback queries\<close>

definition instantConvert_try ::
  "env \<Rightarrow> int \<Rightarrow> string option \<Rightarrow> string option \<Rightarrow> jsnum \<Rightarrow> state \<Rightarrow> (string \<times> state) + state" where
  \<comment> \<open>the try block: \<open>Inl (m, st)\<close> when it throws \<open>m\<close> in state \<open>st\<close>\<close>
  "instantConvert_try env cid fromA toA amt st =
     (let lng = userLang st cid;
          st1 = logCall (GetConvertQuoteOptimized fromA toA amt) st
      in case getConvertQuoteOptimized env (length (calls st)) fromA toA amt of
           Threw m \<Rightarrow> Inl (m, st1)
         | Returned q \<Rightarrow>
             (case truthy q of
                None \<Rightarrow>
                  Inl (translate env lng ''convert_failed'' [(''errorMessage'', noQuoteText)], st1)
              | Some qid \<Rightarrow>
                  (let st2 = logCall (AcceptConvertQuote qid) st1
                   in case acceptConvertQuote env (length (calls st1)) qid of
                        Threw m \<Rightarrow> Inl (m, st2)
                      | Returned a \<Rightarrow>
                          (case truthy a of
                             None \<Rightarrow>
                               Inl (translate env lng ''convert_failed''
                                      [(''errorMessage'', acceptFailedText)], st2)
                           | Some oid \<Rightarrow>
                               Inr (sendPersistentMenu cid
                                      (sendMessage (Chat cid)
                                         (escapeMarkdownV2
                                            (convertSucceeded (show_undefined fromA)
                                               (show_undefined toA) (numToString env amt) oid))
                                         True NoMarkup
                                         (db_insert
                                            \<lparr>fromAsset = fromA, toAsset = toA, orderId = oid,
                                             chatId = cid, amount = amt, status = ''completed'',
                                             error = None, timestamp = db_time env\<rparr> st2)))))))"

definition instantConvert_catch ::
  "config \<Rightarrow> env \<Rightarrow> int \<Rightarrow> string option \<Rightarrow> string option \<Rightarrow> jsnum \<Rightarrow> string \<Rightarrow> state \<Rightarrow> state" where
  \<comment> \<open>the catch block, for the thrown message \<open>m\<close>\<close>
  "instantConvert_catch cfg env cid fromA toA amt m st =
     (let st1 = failedReply cid m st;
          quoteId = randomHex env (randomCalls st1);
          st2 = st1\<lparr>randomCalls := randomCalls st1 + 1\<rparr>
      in sendPersistentMenu cid
           (sendErrorNotification cfg (convertFailed m)
              (db_insert
                 \<lparr>fromAsset = Some (opt_str_or fromA ''Unknown''),
                  toAsset = Some (opt_str_or toA ''Unknown''), orderId = quoteId, chatId = cid,
                  amount = num_or_zero amt, status = ''failed'',
                  error = Some (escapeMarkdownV2 m), timestamp = db_time env\<rparr> st2)))"

definition instantConvert ::
  "config \<Rightarrow> env \<Rightarrow> int \<Rightarrow> string option \<Rightarrow> string option \<Rightarrow> jsnum \<Rightarrow> state \<Rightarrow> state" where
  "instantConvert cfg env cid fromA toA amt st =
     (case instantConvert_try env cid fromA toA amt st of
        Inr st' \<Rightarrow> st'
      | Inl (m, st') \<Rightarrow> instantConvert_catch cfg env cid fromA toA amt m st')"

definition callback_handler :: "config \<Rightarrow> env \<Rightarrow> string \<Rightarrow> int \<Rightarrow> string \<Rightarrow> state \<Rightarrow> state" where
  "callback_handler cfg env qid cid d st =
     (let st1 = st\<lparr>answered := answered st @ [qid]\<rparr> in
      if startsWith d ''confirm_convert_'' then
        (let parts = split_on CHR ''_'' d;
             amt = (case nth_opt parts 4 of None \<Rightarrow> NaN | Some s \<Rightarrow> parseFloat env s)
         in sendPersistentMenu cid
              (instantConvert cfg env cid (nth_opt parts 2) (nth_opt parts 3) amt st1))
      else if d = ''cancel_convert'' then
        sendPersistentMenu cid
          (sendMessage (Chat cid) (escapeMarkdownV2 convertCancelled) True NoMarkup st1)
      else if d = ''convert_now'' then sendMessage (Chat cid) convertHint False NoMarkup st1
      else if d = ''view_status'' then sendMessage (Chat cid) statusHint False NoMarkup st1
      else if d = ''personal_info'' then sendMessage (Chat cid) profileHint False NoMarkup st1
      else if d = ''help'' then
        sendMessage (Chat cid)
          (escapeMarkdownV2 (translate env (userLang st1 cid) ''help.content'' [])) True NoMarkup st1
      else sendMessage (Chat cid) (escapeMarkdownV2 unknownAction) True NoMarkup st1)"

subsection \<open>\<^verbatim>\<open>/status\<close> and \<^verbatim>\<open>/tradehistory\<close>\<close>

definition status_handler :: "config \<Rightarrow> int \<Rightarrow> string \<Rightarrow> state \<Rightarrow> state" where
  "status_handler cfg cid oid st =
     (case db_get oid cid st of
        None \<Rightarrow> sendMessage (Chat cid) (escapeMarkdownV2 (statusNotFoundMessage oid)) True NoMarkup st
      | Some row \<Rightarrow>
          if got_status row = Some ''failed'' then
            (case got_error row of
               None \<Rightarrow>
                 sendErrorNotification cfg (statusQueryFailed undefinedReplaceError)
                   (failedReply cid undefinedReplaceError st)
             | Some e \<Rightarrow>
                 sendPersistentMenu cid
                   (sendMessage (Chat cid)
                      (escapeMarkdownV2
                         (statusMessageHead (show_undefined (got_orderId row))
                            (show_undefined (got_status row))
                            @ statusErrorLine (escapeMarkdownV2 e)))
                      True NoMarkup st))
          else
            sendPersistentMenu cid
              (sendMessage (Chat cid)
                 (escapeMarkdownV2
                    (statusMessageHead (show_undefined (got_orderId row))
                       (show_undefined (got_status row))))
                 True NoMarkup st))"

definition historyMessage :: "env \<Rightarrow> order list \<Rightarrow> string" where
  "historyMessage env rows =
     historyHeader @
     concat (map (\<lambda>(i, r). historyItem (nat_digits (i + 1)) (orderId r) (show_null (fromAsset r))
                               (show_null (toAsset r)) (numToString env (amount r)) (status r)
                               (timestamp r))
               (enumerate 0 rows))"

definition tradehistory_handler :: "env \<Rightarrow> int \<Rightarrow> state \<Rightarrow> state" where
  \<comment> \<open>the history is sent when \<^verbatim>\<open>orderStatusList && orderStatusList.length > 0\<close>\<close>
  "tradehistory_handler env cid st =
     sendPersistentMenu cid
       (case db_all cid st of
          Some orderStatusList \<Rightarrow>
            if orderStatusList \<noteq> [] then
              sendMessage (Chat cid) (escapeMarkdownV2 (historyMessage env orderStatusList)) True
                NoMarkup st
            else sendMessage (Chat cid) (escapeMarkdownV2 noHistoryMessage) True NoMarkup st
        | None \<Rightarrow> sendMessage (Chat cid) (escapeMarkdownV2 noHistoryMessage) True NoMarkup st)"

subsection \<open>\<^verbatim>\<open>/placeorder\<close> and \<^verbatim>\<open>/cancelorder\<close>\<close>

definition placeorder_catch ::
  "config \<Rightarrow> env \<Rightarrow> int \<Rightarrow> string \<Rightarrow> string \<Rightarrow> jsnum \<Rightarrow> string \<Rightarrow> state \<Rightarrow> state" where
  "placeorder_catch cfg env cid fromA toA amt m st =
     (let st1 = failedReply cid m st;
          quoteId = randomHex env (randomCalls st1);
          st2 = st1\<lparr>randomCalls := randomCalls st1 + 1\<rparr>
      in sendPersistentMenu cid
           (sendErrorNotification cfg (limitOrderFailed m)
              (db_insert
                 \<lparr>fromAsset = Some (str_or fromA ''Unknown''), toAsset = Some (str_or toA ''Unknown''),
                  orderId = quoteId, chatId = cid, amount = num_or_zero amt, status = ''failed'',
                  error = Some (escapeMarkdownV2 m), timestamp = db_time env\<rparr> st2)))"

definition placeorder_handler ::
  "config \<Rightarrow> env \<Rightarrow> int \<Rightarrow> string \<times> string \<times> string \<times> string \<Rightarrow> state \<Rightarrow> state" where
  "placeorder_handler cfg env cid m st =
     (let fromA = toUpperCase (fst m);
          toA = toUpperCase (fst (snd m));
          amt = parseFloat env (fst (snd (snd m)));
          price = parseFloat env (snd (snd (snd m)))
      in if isNaN amt \<or> le_zero amt \<or> isNaN price \<or> le_zero price then
           sendMessage (Chat cid) invalidNumbersMessage True NoMarkup st
         else if \<not> isSupported (supportedAssets st) fromA toA then
           sendMessage (Chat cid) (escapeMarkdownV2 (notSupportedMessage fromA toA)) True NoMarkup st
         else
           (let st1 = logCall (PlaceConvertLimitOrder fromA toA amt price) st
            in case placeConvertLimitOrder env (length (calls st)) fromA toA amt price of
                 Threw e \<Rightarrow> placeorder_catch cfg env cid fromA toA amt e st1
               | Returned r \<Rightarrow>
                   (case truthy r of
                      None \<Rightarrow> placeorder_catch cfg env cid fromA toA amt limitOrderError st1
                    | Some oid \<Rightarrow>
                        sendPersistentMenu cid
                          (sendMessage (Chat cid)
                             (escapeMarkdownV2
                                (limitOrderPlaced fromA toA (numToString env amt)
                                   (numToString env price) oid))
                             True NoMarkup
                             (db_insert
                                \<lparr>fromAsset = Some fromA, toAsset = Some toA, orderId = oid,
                                 chatId = cid, amount = amt, status = ''pending'', error = None,
                                 timestamp = db_time env\<rparr> st1)))))"

definition cancelorder_catch :: "config \<Rightarrow> int \<Rightarrow> string \<Rightarrow> state \<Rightarrow> state" where
  "cancelorder_catch cfg cid m st =
     sendErrorNotification cfg (limitCancelFailed m) (failedReply cid m st)"

definition cancelorder_handler :: "config \<Rightarrow> env \<Rightarrow> int \<Rightarrow> string \<Rightarrow> state \<Rightarrow> state" where
  "cancelorder_handler cfg env cid oid st =
     (let st1 = logCall (CancelConvertLimitOrder oid) st
      in case cancelConvertLimitOrder env (length (calls st)) oid of
           Threw e \<Rightarrow> cancelorder_catch cfg cid e st1
         | Returned r \<Rightarrow>
             (case truthy r of
                None \<Rightarrow> cancelorder_catch cfg cid limitCancelError st1
              | Some x \<Rightarrow>
                  sendPersistentMenu cid
                    (sendMessage (Chat cid) (escapeMarkdownV2 (limitOrderCancelled oid)) True NoMarkup
                       (db_update_status ''canceled'' oid st1))))"

subsection \<open>\<^verbatim>\<open>/exchangeinfo\<close> and \<^verbatim>\<open>/assetinfo\<close>\<close>

definition exchangeInfoMessage :: "pair_info list \<Rightarrow> string" where
  "exchangeInfoMessage ps =
     exchangeInfoHeader @
     concat (map (\<lambda>(i, p). exchangeInfoItem (nat_digits (i + 1)) (fromAsset p) (toAsset p)
                               (minAmount p) (maxAmount p))
               (enumerate 0 ps))"

definition exchangeinfo_catch :: "config \<Rightarrow> int \<Rightarrow> string \<Rightarrow> state \<Rightarrow> state" where
  "exchangeinfo_catch cfg cid m st =
     sendErrorNotification cfg (exchangeInfoFailed m) (failedReply cid m st)"

definition exchangeinfo_handler :: "config \<Rightarrow> env \<Rightarrow> int \<Rightarrow> state \<Rightarrow> state" where
  \<comment> \<open>\<^verbatim>\<open>/\/exchangeinfo$/\<close>\<close>
  "exchangeinfo_handler cfg env cid st =
     (let st1 = logCall GetExchangeInfo st
      in case getExchangeInfo env (length (calls st)) of
           Threw e \<Rightarrow> exchangeinfo_catch cfg cid e st1
         | Returned None \<Rightarrow> exchangeinfo_catch cfg cid exchangeInfoError st1
         | Returned (Some ps) \<Rightarrow>
             sendPersistentMenu cid
               (sendMessage (Chat cid) (escapeMarkdownV2 (exchangeInfoMessage ps)) True NoMarkup st1))"

fun assetinfo_loop ::
  "env \<Rightarrow> string list \<Rightarrow> asset_info list \<Rightarrow> string list \<Rightarrow> state
     \<Rightarrow> asset_info list \<times> string list \<times> state" where
  \<comment> \<open>one exchange call per asset; the assets found, the assets not found\<close>
  "assetinfo_loop env [] found missing st = (found, missing, st)"
| "assetinfo_loop env (a # rest) found missing st =
     (let st1 = logCall GetAssetInfo st
      in case getAssetInfo env (length (calls st)) of
           Returned (Some infos) \<Rightarrow>
             (case find (\<lambda>i. asset i = a) infos of
                Some i \<Rightarrow> assetinfo_loop env rest (found @ [i]) missing st1
              | None \<Rightarrow> assetinfo_loop env rest found (missing @ [a]) st1)
         | Returned None \<Rightarrow> assetinfo_loop env rest found (missing @ [a]) st1
         | Threw e \<Rightarrow> assetinfo_loop env rest found (missing @ [a]) st1)"

definition assetInfoMessage :: "asset_info list \<Rightarrow> string list \<Rightarrow> string" where
  "assetInfoMessage found missing =
     (let m1 = (if found \<noteq> [] then
                  assetInfoHeader @
                  concat (map (\<lambda>(i, a). assetInfoItem (nat_digits (i + 1)) (asset a) (precision a))
                            (enumerate 0 found))
                else []);
          m2 = (if missing \<noteq> [] then m1 @ assetsNotFoundHeader (join [CHR 0x0A] missing) else m1)
      in if m2 = [] then noAssetInfo else m2)"

definition assetinfo_handler :: "env \<Rightarrow> int \<Rightarrow> string \<Rightarrow> state \<Rightarrow> state" where
  "assetinfo_handler env cid g st =
     (let assetList = filter (\<lambda>a. a \<noteq> [])
                        (map (\<lambda>a. toUpperCase (trim a)) (split_on CHR '','' (trim g)))
      in if assetList = [] then
           sendMessage (Chat cid) (escapeMarkdownV2 invalidAssetQueryFormat) True NoMarkup st
         else
           (case assetinfo_loop env assetList [] [] st of
              (found, missing, st1) \<Rightarrow>
                sendPersistentMenu cid
                  (sendMessage (Chat cid) (escapeMarkdownV2 (assetInfoMessage found missing))
                     True NoMarkup st1)))"

definition parsePairs :: "string \<Rightarrow> string list" where
  \<comment> \<open>\<^verbatim>\<open>str.trim().split(',').map(pair => pair.trim()).filter(pair => pair.includes(':'))\<close>\<close>
  "parsePairs g = filter (\<lambda>p. CHR '':'' \<in> set p) (map trim (split_on CHR '','' (trim g)))"

definition pairSymbols :: "string \<Rightarrow> (string \<times> string) option" where
  \<comment> \<open>\<^verbatim>\<open>[from, to] = pair.split(':').map(asset => asset.toUpperCase())\<close>, and None when
      \<^verbatim>\<open>!from || !to\<close>\<close>
  "pairSymbols p =
     (case map toUpperCase (split_on CHR '':'' p) of
        a # b # rest \<Rightarrow> if a = [] \<or> b = [] then None else Some (a, b)
      | _ \<Rightarrow> None)"

fun exchangeinfo_loop ::
  "env \<Rightarrow> string list \<Rightarrow> pair_info list \<Rightarrow> string list \<Rightarrow> state
     \<Rightarrow> pair_info list \<times> string list \<times> state" where
  "exchangeinfo_loop env [] found missing st = (found, missing, st)"
| "exchangeinfo_loop env (p # rest) found missing st =
     (case pairSymbols p of
        None \<Rightarrow> exchangeinfo_loop env rest found missing st
      | Some (a, b) \<Rightarrow>
          if isSupported (supportedAssets st) a b then
            (let st1 = logCall GetExchangeInfo st
             in case getExchangeInfo env (length (calls st)) of
                  Returned (Some infos) \<Rightarrow>
                    (case find (pairMatches a b) infos of
                       Some i \<Rightarrow> exchangeinfo_loop env rest (found @ [i]) missing st1
                     | None \<Rightarrow> exchangeinfo_loop env rest found (missing @ [p]) st1)
                | Returned None \<Rightarrow> exchangeinfo_loop env rest found (missing @ [p]) st1
                | Threw e \<Rightarrow> exchangeinfo_loop env rest found (missing @ [p]) st1)
          else exchangeinfo_loop env rest found (missing @ [p]) st)"

definition exchangeInfoBatchMessage :: "pair_info list \<Rightarrow> string list \<Rightarrow> string" where
  "exchangeInfoBatchMessage found missing =
     (let m1 = (if found \<noteq> [] then exchangeInfoMessage found else []);
          m2 = (if missing \<noteq> [] then m1 @ pairsNotFoundHeader (join [CHR 0x0A] missing) else m1)
      in if m2 = [] then noPairInfo else m2)"

definition exchangeinfo_batch_handler :: "env \<Rightarrow> int \<Rightarrow> string \<Rightarrow> state \<Rightarrow> state" where
  \<comment> \<open>\<^verbatim>\<open>/\/exchangeinfo (.+)/\<close>\<close>
  "exchangeinfo_batch_handler env cid g st =
     (let assetPairs = parsePairs g
      in if assetPairs = [] then
           sendMessage (Chat cid) (escapeMarkdownV2 invalidPairQueryFormat) True NoMarkup st
         else
           (case exchangeinfo_loop env assetPairs [] [] st of
              (found, missing, st1) \<Rightarrow>
                sendPersistentMenu cid
                  (sendMessage (Chat cid) (escapeMarkdownV2 (exchangeInfoBatchMessage found missing))
                     True NoMarkup st1)))"

subsection \<open>The admin commands \<^verbatim>\<open>/addassets\<close> and \<^verbatim>\<open>/removeassets\<close>\<close>

fun addassets_loop ::
  "supported_pair list \<Rightarrow> string list \<Rightarrow> supported_pair list \<Rightarrow> string list
     \<Rightarrow> supported_pair list \<times> string list" where
  \<comment> \<open>the \<^verbatim>\<open>forEach\<close> of lines 562 to 577: every pair of the command is looked up in the
      registry as it was before the command\<close>
  "addassets_loop reg [] newPairs existingPairs = (newPairs, existingPairs)"
| "addassets_loop reg (p # rest) newPairs existingPairs =
     (case pairSymbols p of
        None \<Rightarrow> addassets_loop reg rest newPairs existingPairs
      | Some (a, b) \<Rightarrow>
          if isSupported reg a b
          then addassets_loop reg rest newPairs (existingPairs @ [pairLabel a b])
          else addassets_loop reg rest (newPairs @ [\<lparr>fromAsset = a, toAsset = b\<rparr>]) existingPairs)"

definition addassets_handler :: "config \<Rightarrow> env \<Rightarrow> int \<Rightarrow> string \<Rightarrow> state \<Rightarrow> state" where
  "addassets_handler cfg env cid g st =
     (if \<not> isAdmin cfg cid then
        sendMessage (Chat cid) (escapeMarkdownV2 permissionDeniedMessage) True NoMarkup st
      else
        (let assetPairs = parsePairs g
         in if assetPairs = [] then sendMessage (Chat cid) invalidPairFormat True NoMarkup st
            else
              (case addassets_loop (supportedAssets st) assetPairs [] [] of
                 (newPairs, existingPairs) \<Rightarrow>
                   (let st1 = st\<lparr>supportedAssets := supportedAssets st @ newPairs\<rparr>
                    in case writeFile env (supportedAssets st1) of
                         Some e \<Rightarrow>
                           sendErrorNotification cfg (addAssetsFailed e)
                             (sendMessage (Chat cid) (failedMessage (escapeMarkdownV2 e)) True NoMarkup st1)
                       | None \<Rightarrow>
                           (let st2 = st1\<lparr>assetsFile := supportedAssets st1\<rparr>;
                                r1 = (if newPairs \<noteq> [] then
                                        addedPairsMessage
                                          (join [CHR 0x0A]
                                             (map (\<lambda>p. pairLabel (fromAsset p) (toAsset p)) newPairs))
                                      else []);
                                r2 = (if existingPairs \<noteq> [] then
                                        r1 @ existingPairsMessage (join [CHR 0x0A] existingPairs)
                                      else r1)
                            in sendPersistentMenu cid
                                 (sendMessage (Chat cid) r2 True NoMarkup st2))))))"

fun remove_first :: "('a \<Rightarrow> bool) \<Rightarrow> 'a list \<Rightarrow> 'a list" where
  \<comment> \<open>\<^verbatim>\<open>xs.splice(xs.findIndex(P), 1)\<close> when an element satisfies \<^verbatim>\<open>P\<close>\<close>
  "remove_first P [] = []"
| "remove_first P (x # xs) = (if P x then xs else x # remove_first P xs)"

fun removeassets_loop ::
  "supported_pair list \<Rightarrow> string list \<Rightarrow> string list \<Rightarrow> string list
     \<Rightarrow> supported_pair list \<times> string list \<times> string list" where
  "removeassets_loop reg [] removedPairs notFoundPairs = (reg, removedPairs, notFoundPairs)"
| "removeassets_loop reg (p # rest) removedPairs notFoundPairs =
     (case pairSymbols p of
        None \<Rightarrow> removeassets_loop reg rest removedPairs notFoundPairs
      | Some (a, b) \<Rightarrow>
          (case find (pairMatches a b) reg of
             Some removed \<Rightarrow>
               removeassets_loop (remove_first (pairMatches a b) reg) rest
                 (removedPairs @ [pairLabel (fromAsset removed) (toAsset removed)]) notFoundPairs
           | None \<Rightarrow>
               removeassets_loop reg rest removedPairs (notFoundPairs @ [pairLabel a b])))"

definition removeassets_handler :: "config \<Rightarrow> env \<Rightarrow> int \<Rightarrow> string \<Rightarrow> state \<Rightarrow> state" where
  "removeassets_handler cfg env cid g st =
     (if \<not> isAdmin cfg cid then
        sendMessage (Chat cid) permissionDeniedMessage True NoMarkup st
      else
        (let assetPairs = parsePairs g
         in if assetPairs = [] then sendMessage (Chat cid) invalidPairFormat True NoMarkup st
            else
              (case removeassets_loop (supportedAssets st) assetPairs [] [] of
                 (reg, removedPairs, notFoundPairs) \<Rightarrow>
                   (let st1 = st\<lparr>supportedAssets := reg\<rparr>
                    in case writeFile env (supportedAssets st1) of
                         Some e \<Rightarrow> sendErrorNotification cfg (removeAssetsFailed e) (failedReply cid e st1)
                       | None \<Rightarrow>
                           (let st2 = st1\<lparr>assetsFile := supportedAssets st1\<rparr>;
                                r1 = (if removedPairs \<noteq> [] then
                                        removedPairsMessage (join [CHR 0x0A] removedPairs)
                                      else []);
                                r2 = (if notFoundPairs \<noteq> [] then
                                        r1 @ notFoundPairsMessage (join [CHR 0x0A] notFoundPairs)
                                      else r1)
                            in sendPersistentMenu cid
                                 (sendMessage (Chat cid) (escapeMarkdownV2 r2) True NoMarkup st2))))))"

subsection \<open>The second message listener and the dispatch of an update\<close>

text \<open>
  The bot library hands a message to every listener of the \<^verbatim>\<open>message\<close> event and then, when
  the message has a text, to every \<^verbatim>\<open>onText\<close> registration whose pattern matches, in the
  order of registration (\<^verbatim>\<open>src/main.js\<close> creates the bot without \<^verbatim>\<open>onlyFirstMatch\<close>). The
  handlers are asynchronous; here each runs to its end before the next starts, so of the
  messages that different handlers send for one update only the number is meaningful,
  not the order.
\<close>

definition unknown_handler :: "int \<Rightarrow> string option \<Rightarrow> state \<Rightarrow> state" where
  \<comment> \<open>the second \<^verbatim>\<open>bot.on('message')\<close>, lines 796 to 806\<close>
  "unknown_handler cid txt st =
     (let s = (case txt of None \<Rightarrow> [] | Some x \<Rightarrow> x) in
      if \<not> startsWith s ''/'' \<and> s \<notin> set [labelConvert, labelStatus, labelProfile, labelHelp] then
        sendPersistentMenu cid
          (sendMessage (Chat cid) (escapeMarkdownV2 unknownCommandMessage) True NoMarkup st)
      else st)"

datatype update = Message int "string option" | CallbackQuery string int string

definition onText :: "(string \<Rightarrow> 'a option) \<Rightarrow> ('a \<Rightarrow> state \<Rightarrow> state) \<Rightarrow> string \<Rightarrow> state \<Rightarrow> state" where
  \<comment> \<open>one registration of \<^verbatim>\<open>bot.onText\<close>, run on the text of a message\<close>
  "onText re cb s st = (case re s of None \<Rightarrow> st | Some m \<Rightarrow> cb m st)"

definition textHandlers :: "config \<Rightarrow> env \<Rightarrow> int \<Rightarrow> string \<Rightarrow> (state \<Rightarrow> state) list" where
  \<comment> \<open>the registrations of \<^verbatim>\<open>bot.onText\<close>, in the order of the source\<close>
  "textHandlers cfg env cid s =
     [onText (match_literal ''/start'') (\<lambda>m. start_handler env cid) s,
      onText (match_literal ''/help'') (\<lambda>m. help_handler env cid) s,
      onText match_convert (convert_handler cfg env cid) s,
      onText (match_word_arg ''/status '') (status_handler cfg cid) s,
      onText (match_literal ''/tradehistory'') (\<lambda>m. tradehistory_handler env cid) s,
      onText match_placeorder (placeorder_handler cfg env cid) s,
      onText (match_word_arg ''/cancelorder '') (cancelorder_handler cfg env cid) s,
      onText (match_literal_end ''/exchangeinfo'') (\<lambda>m. exchangeinfo_handler cfg env cid) s,
      onText (match_rest_arg ''/assetinfo '') (assetinfo_handler env cid) s,
      onText (match_literal ''/tradehistory'') (\<lambda>m. tradehistory_handler env cid) s,
      onText (match_rest_arg ''/addassets '') (addassets_handler cfg env cid) s,
      onText (match_rest_arg ''/removeassets '') (removeassets_handler cfg env cid) s,
      onText (match_rest_arg ''/exchangeinfo '') (exchangeinfo_batch_handler env cid) s,
      onText (match_rest_arg ''/assetinfo '') (assetinfo_handler env cid) s]"

definition processUpdate :: "config \<Rightarrow> env \<Rightarrow> update \<Rightarrow> state \<Rightarrow> state" where
  "processUpdate cfg env u st =
     (case u of
        CallbackQuery qid cid d \<Rightarrow> callback_handler cfg env qid cid d st
      | Message cid txt \<Rightarrow>
          (let st1 = unknown_handler cid txt (message_handler env cid txt st)
           in case txt of
                None \<Rightarrow> st1
              | Some s \<Rightarrow> if s = [] then st1 else foldl (\<lambda>x h. h x) st1 (textHandlers cfg env cid s)))"

section \<open>An example environment and state\<close>

text \<open>
  A concrete environment and a concrete state, on which the model is evaluated: i18next
  answers with the key (as it does for a missing translation), the number primitives are
  given on the tokens of the examples, and the exchange accepts everything.
\<close>

definition example_env :: env where
  "example_env =
     \<lparr>date_now = 1000,
      db_time = ''2024-01-01 00:00:00'',
      translate = (\<lambda>lng key args. key),
      parseFloat = (\<lambda>s. if s = ''0'' then Num 0 else if s = ''0.5'' then Num (1 / 2)
                         else if s = ''5'' then Num 5 else NaN),
      numToString = (\<lambda>n. if n = Num 0 then ''0'' else if n = Num (1 / 2) then ''0.5''
                          else if n = Num 5 then ''5'' else ''NaN''),
      randomHex = (\<lambda>n. ''000102030405060708090a0b0c0d0e0f''),
      getConvertQuoteOptimized = (\<lambda>n a b x. Returned (Some ''q1'')),
      acceptConvertQuote = (\<lambda>n q. Returned (Some ''o1'')),
      placeConvertLimitOrder = (\<lambda>n a b x p. Returned (Some ''o2'')),
      cancelConvertLimitOrder = (\<lambda>n oid. Returned (Some oid)),
      getExchangeInfo = (\<lambda>n. Returned None),
      getAssetInfo = (\<lambda>n. Returned (Some [\<lparr>asset = ''BTC'', precision = ''8''\<rparr>])),
      writeFile = (\<lambda>ps. None)\<rparr>"

definition example_state :: state where
  "example_state =
     \<lparr>userRateLimits = Map.empty,
      supportedAssets = [\<lparr>fromAsset = ''ETH'', toAsset = ''BTC''\<rparr>],
      assetsFile = [\<lparr>fromAsset = ''ETH'', toAsset = ''BTC''\<rparr>],
      orders = [],
      outbox = [],
      answered = [],
      calls = [],
      randomCalls = 0,
      dbErrors = []\<rparr>"

definition positive :: "jsnum \<Rightarrow> bool" where
  \<comment> \<open>a positive number\<close>
  "positive n = (case n of NaN \<Rightarrow> False | NegInf \<Rightarrow> False | Num r \<Rightarrow> 0 < r | PosInf \<Rightarrow> True)"

definition example_orders :: "order list" where
  \<comment> \<open>a pending limit order of chat 7 and a completed conversion of chat 8\<close>
  "example_orders =
     [\<lparr>fromAsset = Some ''ETH'', toAsset = Some ''BTC'', orderId = ''o1'', chatId = 7,
       amount = Num 5, status = ''pending'', error = None, timestamp = ''2024-01-01 00:00:00''\<rparr>,
      \<lparr>fromAsset = Some ''BTC'', toAsset = Some ''ETH'', orderId = ''o2'', chatId = 8,
       amount = Num (1 / 2), status = ''completed'', error = None,
       timestamp = ''2024-01-02 00:00:00''\<rparr>]"

definition failing_env :: env where
  \<comment> \<open>the example environment with an exchange whose quote request throws \<^verbatim>\<open>a.b\<close>\<close>
  "failing_env = example_env\<lparr>getConvertQuoteOptimized := \<lambda>n a b x. Threw ''a.b''\<rparr>"

section \<open>Basic facts\<close>

lemma escape_append: "escapeMarkdownV2 (a @ b) = escapeMarkdownV2 a @ escapeMarkdownV2 b"
  by (simp add: escapeMarkdownV2_def)

lemma escape_permission_denied: "escapeMarkdownV2 permissionDeniedMessage = permissionDeniedMessage"
  by (simp add: escapeMarkdownV2_def permissionDeniedMessage_def reserved_def)

lemma positive_iff: "positive n \<longleftrightarrow> \<not> isNaN n \<and> \<not> le_zero n"
  by (cases n) (auto simp: positive_def isNaN_def le_zero_def)




section \<open>The supported-pair check\<close>

text \<open>
  Claim C9. The supported-pair check is symmetric: for every registry and all symbols
  \<open>a\<close> and \<open>b\<close>, the pair \<open>(a, b)\<close> is accepted exactly when \<open>(b, a)\<close> is. \<open>isSupported\<close> is
  the check of both \<^verbatim>\<open>/convert\<close> (\<open>convert_checked\<close>) and \<^verbatim>\<open>/placeorder\<close>
  (\<open>placeorder_handler\<close>).
\<close>

theorem supported_pair_check_symmetric:
  "isSupported reg a b = isSupported reg b a"
  by (auto simp: isSupported_def pairMatches_def list_ex_iff)

section \<open>The admin guard\<close>

lemma example_not_admin: "\<not> isAdmin (main_config ''1'') 7"
  by code_simp

text \<open>
  Claim C8 says that every \<^verbatim>\<open>/addassets\<close> or \<^verbatim>\<open>/removeassets\<close> command of a chat that is not
  the admin chat gets the permission-denied reply. A handler runs only on a text that
  matches its pattern, the command followed by a space and at least one character: the
  bare \<^verbatim>\<open>/addassets\<close> or \<^verbatim>\<open>/removeassets\<close> of a non-admin reaches no handler and gets no
  reply at all.
\<close>

theorem bare_admin_command_gets_no_reply:
  "\<not> isAdmin (main_config ''1'') 7
   \<and> match_rest_arg ''/addassets '' ''/addassets'' = None
   \<and> outbox (processUpdate (main_config ''1'') example_env (Message 7 (Some ''/addassets''))
               example_state) = []
   \<and> match_rest_arg ''/removeassets '' ''/removeassets'' = None
   \<and> outbox (processUpdate (main_config ''1'') example_env (Message 7 (Some ''/removeassets''))
               example_state) = []"
  by code_simp

text \<open>
  Claim C8, amended. For every message text and every chat that is not the admin chat,
  the \<^verbatim>\<open>/addassets\<close> registration and the \<^verbatim>\<open>/removeassets\<close> registration (pattern and
  handler) mutate nothing: when the text matches the pattern the state after is the state
  before with the permission-denied message to the sender added, and when it does not
  match the state is unchanged. So the registry, the registry file and the order table
  are unchanged and no message goes to the admin.
\<close>

theorem non_admin_commands_denied:
  assumes "\<not> isAdmin cfg cid"
    and "added = onText (match_rest_arg ''/addassets '') (addassets_handler cfg env cid) s st"
    and "removed = onText (match_rest_arg ''/removeassets '') (removeassets_handler cfg env cid) s st"
    and "denied = st\<lparr>outbox := outbox st @
                    [\<lparr>recipient = Chat cid, body = permissionDeniedMessage, markdown = True,
                      markup = NoMarkup\<rparr>]\<rparr>"
  shows "(match_rest_arg ''/addassets '' s \<noteq> None \<longrightarrow> added = denied)
       \<and> (match_rest_arg ''/addassets '' s = None \<longrightarrow> added = st)
       \<and> (match_rest_arg ''/removeassets '' s \<noteq> None \<longrightarrow> removed = denied)
       \<and> (match_rest_arg ''/removeassets '' s = None \<longrightarrow> removed = st)
       \<and> supportedAssets added = supportedAssets st \<and> assetsFile added = assetsFile st
       \<and> orders added = orders st
       \<and> supportedAssets removed = supportedAssets st \<and> assetsFile removed = assetsFile st
       \<and> orders removed = orders st
       \<and> recipient ` set (outbox added) \<subseteq> insert (Chat cid) (recipient ` set (outbox st))
       \<and> recipient ` set (outbox removed) \<subseteq> insert (Chat cid) (recipient ` set (outbox st))"
proof -
  have a: "added = denied" if "match_rest_arg ''/addassets '' s \<noteq> None"
    using that assms(1,2,4)
    by (auto simp: onText_def addassets_handler_def sendMessage_def escape_permission_denied)
  have a': "added = st" if "match_rest_arg ''/addassets '' s = None"
    using that assms(2) by (simp add: onText_def)
  have r: "removed = denied" if "match_rest_arg ''/removeassets '' s \<noteq> None"
    using that assms(1,3,4)
    by (auto simp: onText_def removeassets_handler_def sendMessage_def)
  have r': "removed = st" if "match_rest_arg ''/removeassets '' s = None"
    using that assms(3) by (simp add: onText_def)
  have fa: "supportedAssets added = supportedAssets st \<and> assetsFile added = assetsFile st
       \<and> orders added = orders st
       \<and> recipient ` set (outbox added) \<subseteq> insert (Chat cid) (recipient ` set (outbox st))"
    using a a' assms(4) by (cases "match_rest_arg ''/addassets '' s") auto
  have fr: "supportedAssets removed = supportedAssets st \<and> assetsFile removed = assetsFile st
       \<and> orders removed = orders st
       \<and> recipient ` set (outbox removed) \<subseteq> insert (Chat cid) (recipient ` set (outbox st))"
    using r r' assms(4) by (cases "match_rest_arg ''/removeassets '' s") auto
  from a a' r r' fa fr show ?thesis by blast
qed

lemma example_admin_matches:
  "match_rest_arg ''/addassets '' ''/addassets ltc:usd'' = Some ''ltc:usd''"
  "match_rest_arg ''/removeassets '' ''/removeassets eth:btc'' = Some ''eth:btc''"
  "match_rest_arg ''/removeassets '' ''/addassets ltc:usd'' = None"
  "match_rest_arg ''/addassets '' ''/removeassets eth:btc'' = None"
  by code_simp+

theorem non_admin_commands_denied_witness:
  "\<not> isAdmin (main_config ''1'') 7
   \<and> match_rest_arg ''/addassets '' ''/addassets ltc:usd'' = Some ''ltc:usd''
   \<and> supportedAssets (onText (match_rest_arg ''/addassets '')
        (addassets_handler (main_config ''1'') example_env 7) ''/addassets ltc:usd'' example_state)
       = [\<lparr>fromAsset = ''ETH'', toAsset = ''BTC''\<rparr>]
   \<and> assetsFile (onText (match_rest_arg ''/addassets '')
        (addassets_handler (main_config ''1'') example_env 7) ''/addassets ltc:usd'' example_state)
       = [\<lparr>fromAsset = ''ETH'', toAsset = ''BTC''\<rparr>]
   \<and> outbox (onText (match_rest_arg ''/addassets '')
        (addassets_handler (main_config ''1'') example_env 7) ''/addassets ltc:usd'' example_state)
       = [\<lparr>recipient = Chat 7, body = permissionDeniedMessage, markdown = True, markup = NoMarkup\<rparr>]
   \<and> match_rest_arg ''/removeassets '' ''/removeassets eth:btc'' = Some ''eth:btc''
   \<and> supportedAssets (onText (match_rest_arg ''/removeassets '')
        (removeassets_handler (main_config ''1'') example_env 7) ''/removeassets eth:btc'' example_state)
       = [\<lparr>fromAsset = ''ETH'', toAsset = ''BTC''\<rparr>]
   \<and> outbox (onText (match_rest_arg ''/removeassets '')
        (removeassets_handler (main_config ''1'') example_env 7) ''/removeassets eth:btc'' example_state)
       = [\<lparr>recipient = Chat 7, body = permissionDeniedMessage, markdown = True, markup = NoMarkup\<rparr>]"
proof -
  note a = non_admin_commands_denied [OF example_not_admin refl refl refl,
      where env = example_env and s = "''/addassets ltc:usd''" and st = example_state]
  note r = non_admin_commands_denied [OF example_not_admin refl refl refl,
      where env = example_env and s = "''/removeassets eth:btc''" and st = example_state]
  have 1: "onText (match_rest_arg ''/addassets '')
        (addassets_handler (main_config ''1'') example_env 7) ''/addassets ltc:usd'' example_state
      = example_state\<lparr>outbox := outbox example_state @
                    [\<lparr>recipient = Chat 7, body = permissionDeniedMessage, markdown = True,
                      markup = NoMarkup\<rparr>]\<rparr>"
    using a example_admin_matches by simp
  have 2: "onText (match_rest_arg ''/removeassets '')
        (removeassets_handler (main_config ''1'') example_env 7) ''/removeassets eth:btc'' example_state
      = example_state\<lparr>outbox := outbox example_state @
                    [\<lparr>recipient = Chat 7, body = permissionDeniedMessage, markdown = True,
                      markup = NoMarkup\<rparr>]\<rparr>"
    using r example_admin_matches by simp
  show ?thesis
    unfolding 1 2 using example_not_admin example_admin_matches
    by (simp add: example_state_def)
qed

section \<open>\<^verbatim>\<open>/cancelorder\<close>\<close>

text \<open>
  Claim C7. The cancel succeeds when the exchange answers with an order id (the code
  tests \<^verbatim>\<open>cancelResult.orderId\<close> for truthiness, so an empty id is no id). Then every row
  of the order table keeps its order id, chat id, assets, amount, error and timestamp,
  and the status of the rows with the cancelled id becomes \<^verbatim>\<open>canceled\<close> (the status of
  every other row is kept). When the exchange call throws, or answers without an order
  id, the order table is unchanged and the handler only records the exchange call,
  replies with the error and notifies the admin.
\<close>

theorem cancelorder_frame:
  assumes "st' = cancelorder_handler cfg env cid oid st"
    and "answer = cancelConvertLimitOrder env (length (calls st)) oid"
  shows "(\<forall>x. answer = Returned (Some x) \<and> x \<noteq> [] \<longrightarrow>
            list_all2
              (\<lambda>r r'. orderId r' = orderId r \<and> chatId r' = chatId r \<and> fromAsset r' = fromAsset r
                       \<and> toAsset r' = toAsset r \<and> amount r' = amount r \<and> error r' = error r
                       \<and> timestamp r' = timestamp r
                       \<and> status r' = (if orderId r = oid then ''canceled'' else status r))
              (orders st) (orders st'))
       \<and> (\<forall>m. answer = Threw m
                \<or> ((answer = Returned None \<or> answer = Returned (Some [])) \<and> m = limitCancelError) \<longrightarrow>
            orders st' = orders st
            \<and> st' = st\<lparr>calls := calls st @ [CancelConvertLimitOrder oid],
                       outbox := outbox st @
                         [\<lparr>recipient = Chat cid,
                           body = escapeMarkdownV2 (failedMessage (escapeMarkdownV2 m)),
                           markdown = True, markup = NoMarkup\<rparr>,
                          \<lparr>recipient = ChatRef (ADMIN_CHAT_ID cfg),
                           body = errorReport (escapeMarkdownV2 (limitCancelFailed m)),
                           markdown = True, markup = NoMarkup\<rparr>]\<rparr>)"
proof -
  have ok: "orders st' = map (\<lambda>r. if orderId r = oid then r\<lparr>status := ''canceled''\<rparr> else r) (orders st)"
    if "answer = Returned (Some x) \<and> x \<noteq> []" for x
    using that assms
    by (simp add: cancelorder_handler_def truthy_def Let_def sendPersistentMenu_def sendMessage_def
        db_update_status_def logCall_def)
  have frame: "list_all2
              (\<lambda>r r'. orderId r' = orderId r \<and> chatId r' = chatId r \<and> fromAsset r' = fromAsset r
                       \<and> toAsset r' = toAsset r \<and> amount r' = amount r \<and> error r' = error r
                       \<and> timestamp r' = timestamp r
                       \<and> status r' = (if orderId r = oid then ''canceled'' else status r))
              rows (map (\<lambda>r. if orderId r = oid then r\<lparr>status := ''canceled''\<rparr> else r) rows)"
    for rows :: "order list"
    by (induction rows) simp_all
  have failed: "st' = st\<lparr>calls := calls st @ [CancelConvertLimitOrder oid],
                       outbox := outbox st @
                         [\<lparr>recipient = Chat cid,
                           body = escapeMarkdownV2 (failedMessage (escapeMarkdownV2 m)),
                           markdown = True, markup = NoMarkup\<rparr>,
                          \<lparr>recipient = ChatRef (ADMIN_CHAT_ID cfg),
                           body = errorReport (escapeMarkdownV2 (limitCancelFailed m)),
                           markdown = True, markup = NoMarkup\<rparr>]\<rparr>"
    if "answer = Threw m
          \<or> ((answer = Returned None \<or> answer = Returned (Some [])) \<and> m = limitCancelError)" for m
    using that assms
    by (auto simp: cancelorder_handler_def cancelorder_catch_def truthy_def Let_def
        sendErrorNotification_def failedReply_def sendMessage_def logCall_def)
  show ?thesis
  proof (intro conjI allI impI)
    fix x assume "answer = Returned (Some x) \<and> x \<noteq> []"
    from ok [OF this] frame [of "orders st"]
    show "list_all2
              (\<lambda>r r'. orderId r' = orderId r \<and> chatId r' = chatId r \<and> fromAsset r' = fromAsset r
                       \<and> toAsset r' = toAsset r \<and> amount r' = amount r \<and> error r' = error r
                       \<and> timestamp r' = timestamp r
                       \<and> status r' = (if orderId r = oid then ''canceled'' else status r))
              (orders st) (orders st')"
      by simp
  next
    fix m assume h: "answer = Threw m
          \<or> ((answer = Returned None \<or> answer = Returned (Some [])) \<and> m = limitCancelError)"
    from failed [OF h] show "orders st' = orders st" by simp
    from failed [OF h] show "st' = st\<lparr>calls := calls st @ [CancelConvertLimitOrder oid],
                       outbox := outbox st @
                         [\<lparr>recipient = Chat cid,
                           body = escapeMarkdownV2 (failedMessage (escapeMarkdownV2 m)),
                           markdown = True, markup = NoMarkup\<rparr>,
                          \<lparr>recipient = ChatRef (ADMIN_CHAT_ID cfg),
                           body = errorReport (escapeMarkdownV2 (limitCancelFailed m)),
                           markdown = True, markup = NoMarkup\<rparr>]\<rparr>" .
  qed
qed

theorem cancelorder_frame_witness:
  "cancelConvertLimitOrder example_env 0 ''o1'' = Returned (Some ''o1'')
   \<and> orders (cancelorder_handler (main_config ''1'') example_env 7 ''o1''
               (example_state\<lparr>orders := example_orders\<rparr>))
       = [\<lparr>fromAsset = Some ''ETH'', toAsset = Some ''BTC'', orderId = ''o1'', chatId = 7,
           amount = Num 5, status = ''canceled'', error = None, timestamp = ''2024-01-01 00:00:00''\<rparr>,
          \<lparr>fromAsset = Some ''BTC'', toAsset = Some ''ETH'', orderId = ''o2'', chatId = 8,
           amount = Num (1 / 2), status = ''completed'', error = None,
           timestamp = ''2024-01-02 00:00:00''\<rparr>]
   \<and> cancelConvertLimitOrder (example_env\<lparr>cancelConvertLimitOrder := \<lambda>n x. Threw ''down''\<rparr>) 0 ''o1''
       = Threw ''down''
   \<and> orders (cancelorder_handler (main_config ''1'')
               (example_env\<lparr>cancelConvertLimitOrder := \<lambda>n x. Threw ''down''\<rparr>) 7 ''o1''
               (example_state\<lparr>orders := example_orders\<rparr>))
       = example_orders
   \<and> map recipient (outbox (cancelorder_handler (main_config ''1'')
               (example_env\<lparr>cancelConvertLimitOrder := \<lambda>n x. Threw ''down''\<rparr>) 7 ''o1''
               (example_state\<lparr>orders := example_orders\<rparr>)))
       = [Chat 7, ChatRef ''1'']
   \<and> cancelConvertLimitOrder (example_env\<lparr>cancelConvertLimitOrder := \<lambda>n x. Returned (Some [])\<rparr>)
        0 ''o1'' = Returned (Some [])
   \<and> orders (cancelorder_handler (main_config ''1'')
               (example_env\<lparr>cancelConvertLimitOrder := \<lambda>n x. Returned (Some [])\<rparr>) 7 ''o1''
               (example_state\<lparr>orders := example_orders\<rparr>))
       = example_orders"
proof -
  let ?st = "example_state\<lparr>orders := example_orders\<rparr>"
  let ?bad = "example_env\<lparr>cancelConvertLimitOrder := \<lambda>n x. Threw ''down''\<rparr>"
  let ?empty = "example_env\<lparr>cancelConvertLimitOrder := \<lambda>n x. Returned (Some [])\<rparr>"
  have ok: "cancelConvertLimitOrder example_env (length (calls ?st)) ''o1'' = Returned (Some ''o1'')"
    by (simp add: example_env_def example_state_def)
  have bad: "cancelConvertLimitOrder ?bad (length (calls ?st)) ''o1'' = Threw ''down''"
    by (simp add: example_env_def example_state_def)
  have empty: "cancelConvertLimitOrder ?empty (length (calls ?st)) ''o1'' = Returned (Some [])"
    by (simp add: example_env_def example_state_def)
  from cancelorder_frame [OF refl refl, where env = example_env and st = ?st and oid = "''o1''"
      and cfg = "main_config ''1''" and cid = 7] ok
  have 1: "list_all2
              (\<lambda>r r'. orderId r' = orderId r \<and> chatId r' = chatId r \<and> fromAsset r' = fromAsset r
                       \<and> toAsset r' = toAsset r \<and> amount r' = amount r \<and> error r' = error r
                       \<and> timestamp r' = timestamp r
                       \<and> status r' = (if orderId r = ''o1'' then ''canceled'' else status r))
              (orders ?st) (orders (cancelorder_handler (main_config ''1'') example_env 7 ''o1'' ?st))"
    by simp
  from cancelorder_frame [OF refl refl, where env = ?bad and st = ?st and oid = "''o1''"
      and cfg = "main_config ''1''" and cid = 7] bad
  have 2: "cancelorder_handler (main_config ''1'') ?bad 7 ''o1'' ?st =
             ?st\<lparr>calls := calls ?st @ [CancelConvertLimitOrder ''o1''],
                       outbox := outbox ?st @
                         [\<lparr>recipient = Chat 7,
                           body = escapeMarkdownV2 (failedMessage (escapeMarkdownV2 ''down'')),
                           markdown = True, markup = NoMarkup\<rparr>,
                          \<lparr>recipient = ChatRef (ADMIN_CHAT_ID (main_config ''1'')),
                           body = errorReport (escapeMarkdownV2 (limitCancelFailed ''down'')),
                           markdown = True, markup = NoMarkup\<rparr>]\<rparr>"
    by blast
  from cancelorder_frame [OF refl refl, where env = ?empty and st = ?st and oid = "''o1''"
      and cfg = "main_config ''1''" and cid = 7] empty
  have 4: "orders (cancelorder_handler (main_config ''1'') ?empty 7 ''o1'' ?st) = orders ?st"
    by blast
  have 3: "orders (cancelorder_handler (main_config ''1'') example_env 7 ''o1'' ?st)
       = [\<lparr>fromAsset = Some ''ETH'', toAsset = Some ''BTC'', orderId = ''o1'', chatId = 7,
           amount = Num 5, status = ''canceled'', error = None, timestamp = ''2024-01-01 00:00:00''\<rparr>,
          \<lparr>fromAsset = Some ''BTC'', toAsset = Some ''ETH'', orderId = ''o2'', chatId = 8,
           amount = Num (1 / 2), status = ''completed'', error = None,
           timestamp = ''2024-01-02 00:00:00''\<rparr>]"
    using 1 by (auto simp: example_orders_def list_all2_Cons1 intro!: order.equality)
  show ?thesis using 2 3 4 ok bad empty
    by (simp add: example_state_def main_config_def)
qed

section \<open>The rate limiter of \<^verbatim>\<open>/convert\<close>\<close>

lemma convert_entry:
  "userRateLimits (convert_handler cfg env cid m st) =
     (userRateLimits st)(cid \<mapsto> rateLimitEntry cfg (date_now env) (userRateLimits st cid))"
  by (simp add: convert_handler_def convert_checked_def Let_def sendMessage_def)

lemma convert_seq_window:
  assumes "userRateLimits st cid = Some e"
    and "\<forall>ev\<in>set evs. date_now (fst ev) - lastReset e \<le> RATE_LIMIT_WINDOW_MS cfg"
  shows "\<exists>e'. userRateLimits (convert_seq cfg cid evs st) cid = Some e'
             \<and> count e' = count e + int (length evs) \<and> lastReset e' = lastReset e"
  using assms
proof (induction evs arbitrary: st e)
  case Nil
  then show ?case by simp
next
  case (Cons ev evs)
  let ?e1 = "rateLimitEntry cfg (date_now (fst ev)) (userRateLimits st cid)"
  let ?st1 = "convert_handler cfg (fst ev) cid (snd ev) st"
  have e1: "userRateLimits ?st1 cid = Some ?e1"
    by (simp add: convert_entry)
  have c1: "count ?e1 = count e + 1" and r1: "lastReset ?e1 = lastReset e"
    using Cons.prems by (simp_all add: rateLimitEntry_def)
  have "\<forall>ev\<in>set evs. date_now (fst ev) - lastReset ?e1 \<le> RATE_LIMIT_WINDOW_MS cfg"
    using Cons.prems r1 by simp
  from Cons.IH [OF e1 this] c1 r1 show ?case by auto
qed

lemma convert_seq_fresh:
  assumes "userRateLimits st cid = None" and "evs \<noteq> []"
    and "\<forall>ev\<in>set evs. date_now (fst ev) - date_now (fst (hd evs)) \<le> RATE_LIMIT_WINDOW_MS cfg"
  shows "\<exists>e'. userRateLimits (convert_seq cfg cid evs st) cid = Some e'
             \<and> count e' = int (length evs) \<and> lastReset e' = date_now (fst (hd evs))"
proof -
  obtain ev rest where evs: "evs = ev # rest" using assms(2) by (cases evs) auto
  let ?e1 = "rateLimitEntry cfg (date_now (fst ev)) (userRateLimits st cid)"
  let ?st1 = "convert_handler cfg (fst ev) cid (snd ev) st"
  have e1: "userRateLimits ?st1 cid = Some ?e1" by (simp add: convert_entry)
  have c1: "count ?e1 = 1" and r1: "lastReset ?e1 = date_now (fst ev)"
    using assms(1) by (simp_all add: rateLimitEntry_def)
  have "\<forall>x\<in>set rest. date_now (fst x) - lastReset ?e1 \<le> RATE_LIMIT_WINDOW_MS cfg"
    using assms(3) r1 evs by simp
  from convert_seq_window [OF e1 this] c1 r1 evs show ?thesis by auto
qed

lemma convert_limited:
  assumes "count (rateLimitEntry cfg (date_now env) (userRateLimits st cid)) > RATE_LIMIT_MAX_REQUESTS cfg"
  shows "convert_handler cfg env cid m st =
           sendMessage (Chat cid)
             (escapeMarkdownV2 (rateLimitMessage env (rateLimitEntry cfg (date_now env) (userRateLimits st cid))))
             True NoMarkup
             (st\<lparr>userRateLimits := (userRateLimits st)
                   (cid \<mapsto> rateLimitEntry cfg (date_now env) (userRateLimits st cid))\<rparr>)"
  using assms by (simp add: convert_handler_def Let_def)

lemma convert_passed:
  assumes "count (rateLimitEntry cfg (date_now env) (userRateLimits st cid)) \<le> RATE_LIMIT_MAX_REQUESTS cfg"
  shows "convert_handler cfg env cid m st =
           convert_checked env cid (toUpperCase (fst m)) (toUpperCase (fst (snd m)))
             (parseFloat env (snd (snd m)))
             (st\<lparr>userRateLimits := (userRateLimits st)
                   (cid \<mapsto> rateLimitEntry cfg (date_now env) (userRateLimits st cid))\<rparr>)"
  using assms by (simp add: convert_handler_def Let_def)

text \<open>
  Claim C2. With the configuration of \<^verbatim>\<open>src/main.js\<close> (10 requests per 60000 ms), for
  every chat id, a \<^verbatim>\<open>/convert\<close> updates the entry \<open>e'\<close> of the chat as a fixed-window
  counter: when more than the window length has passed since the window start (or the chat
  has no entry yet), the count is 1 and the window starts now; otherwise the count is
  incremented and the window start kept; the entry of no other chat changes. When the new count exceeds the maximum, the
  handler only stores the entry and sends the rate-limit message: the registry is not
  consulted and no exchange call is made. Otherwise it goes on to the pair check. After
  ten \<^verbatim>\<open>/convert\<close> of a chat without an entry, all within one window of the first, an
  eleventh within that window is rejected; and the first \<^verbatim>\<open>/convert\<close> after the window has
  elapsed has count 1 and goes on to the pair check.
\<close>

theorem rate_limiter_fixed_window:
  assumes "cfg = main_config admin"
    and "e' = rateLimitEntry cfg (date_now env) (userRateLimits st cid)"
    and "st1 = st\<lparr>userRateLimits := (userRateLimits st)(cid \<mapsto> e')\<rparr>"
    and "st' = convert_handler cfg env cid m st"
    and "rejected = sendMessage (Chat cid) (escapeMarkdownV2 (rateLimitMessage env e')) True NoMarkup st1"
    and "checked = convert_checked env cid (toUpperCase (fst m)) (toUpperCase (fst (snd m)))
                     (parseFloat env (snd (snd m))) st1"
  shows "userRateLimits st' = (userRateLimits st)(cid \<mapsto> e')
       \<and> calls st' = calls st
       \<and> (userRateLimits st cid = None \<longrightarrow>
              count e' = 1 \<and> lastReset e' = date_now env \<and> st' = checked)
       \<and> (\<forall>e. userRateLimits st cid = Some e \<and> date_now env - lastReset e > 60000 \<longrightarrow>
              count e' = 1 \<and> lastReset e' = date_now env \<and> st' = checked)
       \<and> (\<forall>e. userRateLimits st cid = Some e \<and> \<not> date_now env - lastReset e > 60000 \<longrightarrow>
              count e' = count e + 1 \<and> lastReset e' = lastReset e)
       \<and> (count e' > 10 \<longrightarrow> st' = rejected)
       \<and> (count e' \<le> 10 \<longrightarrow> st' = checked)
       \<and> (\<forall>st0 evs. userRateLimits st0 cid = None \<and> length evs = 10
              \<and> (\<forall>ev\<in>set evs. date_now (fst ev) - date_now (fst (hd evs)) \<le> 60000)
              \<and> date_now env - date_now (fst (hd evs)) \<le> 60000
              \<and> st = convert_seq cfg cid evs st0 \<longrightarrow>
              count e' = 11 \<and> st' = rejected)"
proof -
  have W: "RATE_LIMIT_WINDOW_MS cfg = 60000" and M: "RATE_LIMIT_MAX_REQUESTS cfg = 10"
    using assms(1) by (simp_all add: main_config_def)
  have entry: "userRateLimits st' = (userRateLimits st)(cid \<mapsto> e')"
    using assms(2,4) by (simp add: convert_entry)
  have calls: "calls st' = calls st"
    using assms(4) by (simp add: convert_handler_def convert_checked_def Let_def sendMessage_def)
  have limited: "st' = rejected" if "count e' > 10"
    using that assms(2-5) M convert_limited [where cfg = cfg and env = env and st = st and cid = cid and m = m] by simp
  have passed: "st' = checked" if "count e' \<le> 10"
    using that assms(2-4,6) M convert_passed [where cfg = cfg and env = env and st = st and cid = cid and m = m] by simp
  have reset: "count e' = 1 \<and> lastReset e' = date_now env \<and> st' = checked"
    if "userRateLimits st cid = Some e \<and> date_now env - lastReset e > 60000" for e
  proof -
    have "count e' = 1 \<and> lastReset e' = date_now env"
      using that assms(2) W by (simp add: rateLimitEntry_def)
    with passed show ?thesis by simp
  qed
  have first: "count e' = 1 \<and> lastReset e' = date_now env \<and> st' = checked"
    if "userRateLimits st cid = None"
  proof -
    have "count e' = 1 \<and> lastReset e' = date_now env"
      using that assms(2) by (simp add: rateLimitEntry_def)
    with passed show ?thesis by simp
  qed
  have incr: "count e' = count e + 1 \<and> lastReset e' = lastReset e"
    if "userRateLimits st cid = Some e \<and> \<not> date_now env - lastReset e > 60000" for e
    using that assms(2) W by (simp add: rateLimitEntry_def)
  have eleventh: "count e' = 11 \<and> st' = rejected"
    if h: "userRateLimits st0 cid = None \<and> length evs = 10
              \<and> (\<forall>ev\<in>set evs. date_now (fst ev) - date_now (fst (hd evs)) \<le> 60000)
              \<and> date_now env - date_now (fst (hd evs)) \<le> 60000
              \<and> st = convert_seq cfg cid evs st0" for st0 evs
  proof -
    from h have ne: "evs \<noteq> []" by auto
    from h W have win: "\<forall>ev\<in>set evs. date_now (fst ev) - date_now (fst (hd evs)) \<le> RATE_LIMIT_WINDOW_MS cfg"
      by simp
    from h have none: "userRateLimits st0 cid = None" by simp
    from convert_seq_fresh [OF none ne win] h
    obtain e where e: "userRateLimits st cid = Some e" "count e = 10"
      "lastReset e = date_now (fst (hd evs))"
      by auto
    with h have "\<not> date_now env - lastReset e > 60000" by simp
    with incr [of e] e have "count e' = 11" by simp
    with limited show ?thesis by simp
  qed
  from entry calls first reset incr limited passed eleventh show ?thesis by blast
qed

theorem rate_limiter_fixed_window_witness:
  "userRateLimits example_state 7 = None
   \<and> length (replicate 10 (example_env, ''eth'', ''btc'', ''5'')) = 10
   \<and> count (rateLimitEntry (main_config ''1'') (date_now example_env)
        (userRateLimits (convert_seq (main_config ''1'') 7
           (replicate 10 (example_env, ''eth'', ''btc'', ''5'')) example_state) 7)) = 11
   \<and> map body (outbox (convert_handler (main_config ''1'') example_env 7 (''eth'', ''btc'', ''5'')
        (example_state\<lparr>userRateLimits := [7 \<mapsto> \<lparr>count = 10, lastReset = 0, lang = ''zh''\<rparr>]\<rparr>)))
       = [escapeMarkdownV2 ''rate_limit_exceeded'']
   \<and> userRateLimits (convert_handler (main_config ''1'') (example_env\<lparr>date_now := 60001\<rparr>) 7
        (''eth'', ''btc'', ''5'')
        (example_state\<lparr>userRateLimits := [7 \<mapsto> \<lparr>count = 10, lastReset = 0, lang = ''zh''\<rparr>]\<rparr>)) 7
       = Some \<lparr>count = 1, lastReset = 60001, lang = ''zh''\<rparr>
   \<and> map (markup) (outbox (convert_handler (main_config ''1'') (example_env\<lparr>date_now := 60001\<rparr>) 7
        (''eth'', ''btc'', ''5'')
        (example_state\<lparr>userRateLimits := [7 \<mapsto> \<lparr>count = 10, lastReset = 0, lang = ''zh''\<rparr>]\<rparr>)))
       = [InlineKeyboard [[(confirmButton, ''confirm_convert_ETH_BTC_5''), (cancelButton, ''cancel_convert'')]]]"
proof -
  let ?cfg = "main_config ''1''"
  let ?evs = "replicate 10 (example_env, ''eth'', ''btc'', ''5'')"
  let ?m = "(''eth'', ''btc'', ''5'')"
  let ?full = "example_state\<lparr>userRateLimits := [7 \<mapsto> \<lparr>count = 10, lastReset = 0, lang = ''zh''\<rparr>]\<rparr>"
  let ?late = "example_env\<lparr>date_now := 60001\<rparr>"
  have none: "userRateLimits example_state 7 = None"
    by (simp add: example_state_def)
  have win: "\<forall>ev\<in>set ?evs. date_now (fst ev) - date_now (fst (hd ?evs)) \<le> 60000"
    by simp
  have win': "date_now example_env - date_now (fst (hd ?evs)) \<le> 60000"
    by simp
  from rate_limiter_fixed_window [where admin = "''1''" and env = example_env
      and st = "convert_seq ?cfg 7 ?evs example_state" and cid = 7 and m = ?m,
      OF refl refl refl refl refl refl]
    none win win'
  have 1: "count (rateLimitEntry ?cfg (date_now example_env)
        (userRateLimits (convert_seq ?cfg 7 ?evs example_state) 7)) = 11"
    by (metis (no_types, lifting) length_replicate)
  have full: "userRateLimits ?full 7 = Some \<lparr>count = 10, lastReset = 0, lang = ''zh''\<rparr>"
    by simp
  have c11: "count (rateLimitEntry ?cfg (date_now example_env) (userRateLimits ?full 7)) = 11"
    by (simp add: rateLimitEntry_def main_config_def example_env_def)
  from rate_limiter_fixed_window [where admin = "''1''" and env = example_env
      and st = ?full and cid = 7 and m = ?m, OF refl refl refl refl refl refl] c11
  have 2: "convert_handler ?cfg example_env 7 ?m ?full =
      sendMessage (Chat 7) (escapeMarkdownV2 (rateLimitMessage example_env
          (rateLimitEntry ?cfg (date_now example_env) (userRateLimits ?full 7)))) True NoMarkup
        (?full\<lparr>userRateLimits := (userRateLimits ?full)
            (7 \<mapsto> rateLimitEntry ?cfg (date_now example_env) (userRateLimits ?full 7))\<rparr>)"
    by simp
  have elapsed: "date_now ?late - lastReset \<lparr>count = 10, lastReset = 0, lang = ''zh''\<rparr> > 60000"
    by simp
  from rate_limiter_fixed_window [where admin = "''1''" and env = ?late
      and st = ?full and cid = 7 and m = ?m, OF refl refl refl refl refl refl] full elapsed
  have 3: "count (rateLimitEntry ?cfg (date_now ?late) (userRateLimits ?full 7)) = 1
      \<and> lastReset (rateLimitEntry ?cfg (date_now ?late) (userRateLimits ?full 7)) = date_now ?late
      \<and> convert_handler ?cfg ?late 7 ?m ?full =
         convert_checked ?late 7 (toUpperCase (fst ?m)) (toUpperCase (fst (snd ?m)))
           (parseFloat ?late (snd (snd ?m)))
           (?full\<lparr>userRateLimits := (userRateLimits ?full)
              (7 \<mapsto> rateLimitEntry ?cfg (date_now ?late) (userRateLimits ?full 7))\<rparr>)"
    by blast
  have up: "toUpperCase ''eth'' = ''ETH''" "toUpperCase ''btc'' = ''BTC''"
    by code_simp+
  have b2: "map body (outbox (convert_handler ?cfg example_env 7 ?m ?full))
       = [escapeMarkdownV2 ''rate_limit_exceeded'']"
    unfolding 2
    by (simp add: sendMessage_def rateLimitMessage_def rateLimitEntry_def main_config_def
        example_env_def example_state_def str_or_def)
  have b3: "userRateLimits (convert_handler ?cfg ?late 7 ?m ?full) 7
       = Some \<lparr>count = 1, lastReset = 60001, lang = ''zh''\<rparr>"
    by (simp add: convert_entry rateLimitEntry_def main_config_def)
  have b4: "map (markup) (outbox (convert_handler ?cfg ?late 7 ?m ?full))
       = [InlineKeyboard [[(confirmButton, ''confirm_convert_ETH_BTC_5''), (cancelButton, ''cancel_convert'')]]]"
    using 3 up
    by (simp add: convert_checked_def sendMessage_def example_state_def example_env_def
        isSupported_def pairMatches_def confirmCallbackData_def)
  from none 1 b2 b3 b4 show ?thesis by simp
qed

section \<open>The Instant Conversion protocol\<close>








section \<open>Validation of \<^verbatim>\<open>/placeorder\<close> and \<^verbatim>\<open>/convert\<close>\<close>

lemma placeorder_unmatched:
  "match_placeorder ''/placeorder XRP USD -5 0.5'' = None"
  by code_simp

lemma placeorder_zero_matched:
  "match_placeorder ''/placeorder XRP USD 0 0.5'' = Some (''XRP'', ''USD'', ''0'', ''0.5'')"
  by code_simp

text \<open>
  Claim C6. A \<^verbatim>\<open>/placeorder\<close> message whose amount or price is not a positive number
  is rejected before any exchange call and inserts no order row. The message either does
  not match the command pattern (as \<^verbatim>\<open>/placeorder XRP USD -5 0.5\<close>: the pattern has no
  sign), and then the handler does not run; or it matches and the amount or the price
  parses to a number that is not positive, and then the handler only replies that amount
  and price must be positive.
\<close>

theorem placeorder_rejects_non_positive:
  assumes "st' = onText match_placeorder (placeorder_handler cfg env cid) s st"
    and "\<forall>a b d p. match_placeorder s = Some (a, b, d, p) \<longrightarrow>
           \<not> (positive (parseFloat env d) \<and> positive (parseFloat env p))"
  shows "orders st' = orders st \<and> calls st' = calls st
       \<and> (match_placeorder s = None \<longrightarrow> st' = st)
       \<and> (match_placeorder s \<noteq> None \<longrightarrow>
            st' = sendMessage (Chat cid) invalidNumbersMessage True NoMarkup st)"
proof (cases "match_placeorder s")
  case None
  then have "st' = st" using assms(1) by (simp add: onText_def)
  with None show ?thesis by simp
next
  case (Some g)
  obtain a b d p where g: "g = (a, b, d, p)" by (cases g) auto
  from assms(2) Some g
  have "isNaN (parseFloat env d) \<or> le_zero (parseFloat env d)
        \<or> isNaN (parseFloat env p) \<or> le_zero (parseFloat env p)"
    by (auto simp: positive_iff)
  then have "st' = sendMessage (Chat cid) invalidNumbersMessage True NoMarkup st"
    using assms(1) Some g by (simp add: onText_def placeorder_handler_def Let_def)
  with Some show ?thesis by (simp add: sendMessage_def)
qed

theorem placeorder_rejects_non_positive_witness:
  "match_placeorder ''/placeorder XRP USD -5 0.5'' = None
   \<and> onText match_placeorder (placeorder_handler (main_config ''1'') example_env 7)
        ''/placeorder XRP USD -5 0.5'' example_state = example_state
   \<and> match_placeorder ''/placeorder XRP USD 0 0.5'' = Some (''XRP'', ''USD'', ''0'', ''0.5'')
   \<and> \<not> positive (parseFloat example_env ''0'')
   \<and> orders (onText match_placeorder (placeorder_handler (main_config ''1'') example_env 7)
        ''/placeorder XRP USD 0 0.5'' example_state) = []
   \<and> calls (onText match_placeorder (placeorder_handler (main_config ''1'') example_env 7)
        ''/placeorder XRP USD 0 0.5'' example_state) = []
   \<and> map body (outbox (onText match_placeorder (placeorder_handler (main_config ''1'') example_env 7)
        ''/placeorder XRP USD 0 0.5'' example_state)) = [invalidNumbersMessage]
   \<and> orders (processUpdate (main_config ''1'') example_env
        (Message 7 (Some ''/placeorder XRP USD -5 0.5'')) example_state) = []
   \<and> calls (processUpdate (main_config ''1'') example_env
        (Message 7 (Some ''/placeorder XRP USD -5 0.5'')) example_state) = []
   \<and> outbox (processUpdate (main_config ''1'') example_env
        (Message 7 (Some ''/placeorder XRP USD -5 0.5'')) example_state) = []"
proof -
  have whole: "orders (processUpdate (main_config ''1'') example_env
        (Message 7 (Some ''/placeorder XRP USD -5 0.5'')) example_state) = []
   \<and> calls (processUpdate (main_config ''1'') example_env
        (Message 7 (Some ''/placeorder XRP USD -5 0.5'')) example_state) = []
   \<and> outbox (processUpdate (main_config ''1'') example_env
        (Message 7 (Some ''/placeorder XRP USD -5 0.5'')) example_state) = []"
    by code_simp
  have z: "\<not> positive (parseFloat example_env ''0'')"
    by (simp add: example_env_def positive_def)
  have h1: "\<forall>a b d p. match_placeorder ''/placeorder XRP USD -5 0.5'' = Some (a, b, d, p) \<longrightarrow>
           \<not> (positive (parseFloat example_env d) \<and> positive (parseFloat example_env p))"
    by (simp add: placeorder_unmatched)
  have h2: "\<forall>a b d p. match_placeorder ''/placeorder XRP USD 0 0.5'' = Some (a, b, d, p) \<longrightarrow>
           \<not> (positive (parseFloat example_env d) \<and> positive (parseFloat example_env p))"
    using z by (simp add: placeorder_zero_matched)
  note a = placeorder_rejects_non_positive [OF refl h1, of "main_config ''1''" 7 example_state]
  note b = placeorder_rejects_non_positive [OF refl h2, of "main_config ''1''" 7 example_state]
  from a b z whole show ?thesis
    by (simp add: placeorder_unmatched placeorder_zero_matched sendMessage_def example_state_def)
qed







lemma split_on_last: "d \<notin> set w \<Longrightarrow> split_on d w = [w]"
  by (induction w) auto







section \<open>Where the code departs from the specification\<close>

text \<open>
  Claim C3 (escaping is applied once to every piece of dynamic text, so that every reserved
  character follows exactly one backslash) fails on the code. A confirm callback whose
  quote request throws \<^verbatim>\<open>a.b\<close>: the catch block escapes the error text, puts it after the
  prefix and escapes the whole message again, so the failure reply to the user holds the
  error text escaped twice, the dot after three backslashes, where one pass gives
  \<^verbatim>\<open>a\.b\<close>. The report to the admin holds the same text escaped once.
\<close>

theorem failure_reply_escapes_error_twice:
  "escapeMarkdownV2 ''a.b'' = ''a'' @ [CHR 0x5C] @ ''.b''
   \<and> getConvertQuoteOptimized failing_env 0 (Some ''ETH'') (Some ''BTC'') (Num 5) = Threw ''a.b''
   \<and> map (\<lambda>m. (recipient m, body m))
        (outbox (processUpdate (main_config ''1'') failing_env
                   (CallbackQuery ''cb1'' 7 ''confirm_convert_ETH_BTC_5'') example_state))
     = [(Chat 7, escapeMarkdownV2 (failedMessage []) @ ''a'' @ replicate 3 (CHR 0x5C) @ ''.b''),
        (ChatRef ''1'', errorReport (escapeMarkdownV2 (convertFailed [])
                                      @ ''a'' @ [CHR 0x5C] @ ''.b'')),
        (Chat 7, menuPrompt),
        (Chat 7, menuPrompt)]"
  by code_simp

text \<open>
  Claim C4 (one inbound message, one reply) fails on the code. \<^verbatim>\<open>/tradehistory\<close> and
  \<^verbatim>\<open>/assetinfo\<close> are registered twice and every registration whose pattern matches
  runs; both message listeners reply to a text that is neither a command nor a menu
  label. So one \<^verbatim>\<open>/tradehistory\<close> message gets the history reply (the no-history text)
  twice, one \<^verbatim>\<open>/assetinfo BTC\<close> message gets the asset reply twice (after two exchange
  calls), and the text \<^verbatim>\<open>hello\<close> gets two unknown-command replies, the localized one and
  the fixed one, and the menu.
\<close>

theorem one_message_two_replies:
  "count_list
     (map body (outbox (processUpdate (main_config ''1'') example_env
                          (Message 7 (Some ''/tradehistory'')) example_state)))
     (escapeMarkdownV2 noHistoryMessage) = 2
   \<and> count_list
     (map body (outbox (processUpdate (main_config ''1'') example_env
                          (Message 7 (Some ''/assetinfo BTC'')) example_state)))
     (escapeMarkdownV2 (assetInfoMessage [\<lparr>asset = ''BTC'', precision = ''8''\<rparr>] [])) = 2
   \<and> calls (processUpdate (main_config ''1'') example_env (Message 7 (Some ''/assetinfo BTC''))
              example_state)
     = [GetAssetInfo, GetAssetInfo]
   \<and> count_list
     (map body (outbox (processUpdate (main_config ''1'') example_env
                          (Message 7 (Some ''hello'')) example_state)))
     (escapeMarkdownV2 (translate example_env ''zh'' ''unknown_command'' [])) = 1
   \<and> count_list
     (map body (outbox (processUpdate (main_config ''1'') example_env
                          (Message 7 (Some ''hello'')) example_state)))
     (escapeMarkdownV2 unknownCommandMessage) = 1
   \<and> length (outbox (processUpdate (main_config ''1'') example_env
                          (Message 7 (Some ''hello'')) example_state)) = 3"
  by code_simp

text \<open>
  Claim C5 (no duplicate pair after any \<^verbatim>\<open>/addassets\<close>) fails on the code. The admin's
  \<^verbatim>\<open>/addassets a:b,a:b\<close> appends the pair A/B twice, and \<^verbatim>\<open>/addassets a:b,b:a\<close> appends A/B
  and its reverse B/A, to the registry and to the registry file: each pair of the command
  is compared with the registry as it was before the command only.
\<close>

theorem addassets_batch_adds_duplicates:
  "isAdmin (main_config ''7'') 7
   \<and> supportedAssets (processUpdate (main_config ''7'') example_env
        (Message 7 (Some ''/addassets a:b,a:b'')) example_state)
     = [\<lparr>fromAsset = ''ETH'', toAsset = ''BTC''\<rparr>, \<lparr>fromAsset = ''A'', toAsset = ''B''\<rparr>,
        \<lparr>fromAsset = ''A'', toAsset = ''B''\<rparr>]
   \<and> assetsFile (processUpdate (main_config ''7'') example_env
        (Message 7 (Some ''/addassets a:b,a:b'')) example_state)
     = [\<lparr>fromAsset = ''ETH'', toAsset = ''BTC''\<rparr>, \<lparr>fromAsset = ''A'', toAsset = ''B''\<rparr>,
        \<lparr>fromAsset = ''A'', toAsset = ''B''\<rparr>]
   \<and> supportedAssets (processUpdate (main_config ''7'') example_env
        (Message 7 (Some ''/addassets a:b,b:a'')) example_state)
     = [\<lparr>fromAsset = ''ETH'', toAsset = ''BTC''\<rparr>, \<lparr>fromAsset = ''A'', toAsset = ''B''\<rparr>,
        \<lparr>fromAsset = ''B'', toAsset = ''A''\<rparr>]"
  by code_simp

end
